theory Spec2Isabelle
  imports Complex_Main "HOL-Library.Sublist"
begin

section \<open>Python values\<close>

text \<open>
  Values of Python's \<open>Any\<close> as they occur in event metadata, parameters and results.
  Text is ASCII: a \<open>string\<close> is the list of the characters of a Python \<open>str\<close> whose
  code points are below 128. Wall-clock readings (\<open>datetime.utcnow()\<close>, execution times)
  are inputs of the operations that read the clock and are real numbers. \<open>PFloatOf s\<close> is
  the float that \<open>float(s)\<close> returns for a text it accepts; which double that is, is not
  computed.
\<close>

datatype py =
    PNone
  | PBool bool
  | PInt int
  | PFloat real
  | PFloatOf string
  | PStr string
  | PList "py list"
  | PDict "(string \<times> py) list"

section \<open>ArcaneOS/core/event\_bus.py\<close>

datatype SpellType = SUMMON | INVOKE | BANISH | REVEAL | PARSE | VOICE | ROUTE

fun spell_value :: "SpellType \<Rightarrow> string" where
  "spell_value SUMMON = ''summon''"
| "spell_value INVOKE = ''invoke''"
| "spell_value BANISH = ''banish''"
| "spell_value REVEAL = ''reveal''"
| "spell_value PARSE = ''parse''"
| "spell_value VOICE = ''voice''"
| "spell_value ROUTE = ''route''"

record ArcaneEvent =
  spell_name :: SpellType
  daemon_name :: "string option"
  success :: bool
  description :: string
  timestamp :: nat
  metadata :: "(string \<times> py) list"

text \<open>The dictionary built by \<open>ArcaneEvent.to_dict\<close>, one field per key.\<close>

record event_dict =
  d_spell_name :: string
  d_daemon_name :: "string option"
  d_timestamp :: nat
  d_success :: bool
  d_description :: string
  d_metadata :: "(string \<times> py) list"

definition to_dict :: "ArcaneEvent \<Rightarrow> event_dict" where
  "to_dict e =
     \<lparr> d_spell_name = spell_value (spell_name e),
       d_daemon_name = daemon_name e,
       d_timestamp = timestamp e,
       d_success = success e,
       d_description = description e,
       d_metadata = metadata e \<rparr>"

text \<open>
  The bus: the subscriber queues (a set of \<open>asyncio.Queue\<close> objects, here the content of
  each queue under its identity), the history list and its bound.
\<close>

record ArcaneEventBus =
  subscribers :: "nat \<rightharpoonup> ArcaneEvent list"
  event_history :: "ArcaneEvent list"
  max_history :: nat

definition new_bus :: ArcaneEventBus where
  "new_bus = \<lparr> subscribers = Map.empty, event_history = [], max_history = 100 \<rparr>"

definition subscribe :: "nat \<Rightarrow> ArcaneEventBus \<Rightarrow> ArcaneEventBus" where
  "subscribe q bus = bus\<lparr>subscribers := (subscribers bus)(q \<mapsto> [])\<rparr>"

definition unsubscribe :: "nat \<Rightarrow> ArcaneEventBus \<Rightarrow> ArcaneEventBus" where
  "unsubscribe q bus = bus\<lparr>subscribers := (subscribers bus)(q := None)\<rparr>"

text \<open>
  \<open>emit\<close>: append to the history, \<open>pop(0)\<close> once the list is longer than the bound, then
  put the event on every subscriber queue. The queues are unbounded, so \<open>put\<close> does not
  raise and the set \<open>dead\<close> stays empty.
\<close>

definition emit :: "ArcaneEvent \<Rightarrow> ArcaneEventBus \<Rightarrow> ArcaneEventBus" where
  "emit event bus =
     (let h = event_history bus @ [event];
          h' = (if length h > max_history bus then tl h else h)
      in bus\<lparr> event_history := h',
              subscribers := (\<lambda>q. map_option (\<lambda>evs. evs @ [event]) (subscribers bus q)) \<rparr>)"

fun emit_all :: "ArcaneEvent list \<Rightarrow> ArcaneEventBus \<Rightarrow> ArcaneEventBus" where
  "emit_all [] bus = bus"
| "emit_all (e # es) bus = emit_all es (emit e bus)"

text \<open>
  Python's \<open>xs[start:]\<close>: a negative start counts from the end and is clipped at the
  front, a start beyond the end gives the empty list.
\<close>

definition py_slice_from :: "int \<Rightarrow> 'a list \<Rightarrow> 'a list" where
  "py_slice_from start xs =
     (let n = int (length xs);
          s = (if start < 0 then max (start + n) 0 else min start n)
      in drop (nat s) xs)"

definition get_recent_events :: "int \<Rightarrow> ArcaneEventBus \<Rightarrow> event_dict list" where
  "get_recent_events count bus = map to_dict (py_slice_from (- count) (event_history bus))"

section \<open>The bounded history\<close>

lemma max_history_emit [simp]: "max_history (emit e bus) = max_history bus"
  by (simp add: emit_def Let_def)

lemma max_history_emit_all [simp]: "max_history (emit_all es bus) = max_history bus"
  by (induction es arbitrary: bus) simp_all

lemma history_emit:
  "event_history (emit e bus) =
     (if length (event_history bus) < max_history bus
      then event_history bus @ [e] else tl (event_history bus @ [e]))"
  by (auto simp add: emit_def Let_def)

lemma last_drop_append:
  "drop (length (drop (length xs - m) xs @ ys) - m) (drop (length xs - m) xs @ ys) =
   drop (length (xs @ ys) - m) (xs @ ys)"
proof (cases "length xs \<le> m")
  case True
  then show ?thesis by simp
next
  case False
  then have "length (drop (length xs - m) xs) = m" by simp
  then show ?thesis using False by (simp add: add.commute)
qed

lemma history_emit_drop:
  assumes "length (event_history bus) \<le> max_history bus"
  shows "event_history (emit e bus) =
           drop (length (event_history bus @ [e]) - max_history bus) (event_history bus @ [e])"
proof (cases "length (event_history bus) < max_history bus")
  case True
  then show ?thesis by (simp add: history_emit)
next
  case False
  with assms have "length (event_history bus) = max_history bus" by simp
  then show ?thesis
    by (cases "event_history bus") (auto simp add: history_emit drop_Suc)
qed

lemma history_emit_all:
  "length (event_history bus) \<le> max_history bus \<Longrightarrow>
   event_history (emit_all es bus) =
     drop (length (event_history bus @ es) - max_history bus) (event_history bus @ es)"
proof (induction es arbitrary: bus)
  case Nil
  then show ?case by simp
next
  case (Cons e es)
  let ?h = "event_history bus" and ?m = "max_history bus"
  let ?k = "drop (length (?h @ [e]) - ?m) (?h @ [e])"
  have step: "event_history (emit e bus) = ?k"
    using Cons.prems by (rule history_emit_drop)
  have bound: "length (event_history (emit e bus)) \<le> max_history (emit e bus)"
    using Cons.prems by (simp add: step)
  have "event_history (emit_all (e # es) bus) = drop (length (?k @ es) - ?m) (?k @ es)"
    using Cons.IH [OF bound] by (simp only: emit_all.simps step max_history_emit)
  also have "\<dots> = drop (length ((?h @ [e]) @ es) - ?m) ((?h @ [e]) @ es)"
    by (rule last_drop_append)
  finally show ?case by simp
qed

lemma py_slice_from_neg:
  assumes "0 < count"
  shows "py_slice_from (- count) xs = drop (length xs - nat count) xs"
proof -
  have "nat (max (- count + int (length xs)) 0) = length xs - nat count"
    using assms by (simp add: max_def) linarith
  then show ?thesis
    using assms by (simp add: py_slice_from_def Let_def)
qed

lemma py_slice_from_zero: "py_slice_from 0 xs = xs"
  by (simp add: py_slice_from_def Let_def)

text \<open>
  C8. From an empty bus with capacity 100, emitting \<open>100 + k\<close> events leaves exactly 100
  events in the history: the first \<open>k\<close> are gone and \<open>get_recent_events 100\<close> returns the
  others in emission order, the most recent last.
\<close>

theorem history_bound_after_overflow:
  assumes "length es = 100 + k"
  shows "event_history (emit_all es new_bus) = drop k es
       \<and> length (event_history (emit_all es new_bus)) = 100
       \<and> get_recent_events 100 (emit_all es new_bus) = map to_dict (drop k es)"
proof -
  have h: "event_history (emit_all es new_bus) = drop k es"
    using history_emit_all [of new_bus es] assms by (simp add: new_bus_def)
  have l: "length (drop k es) = 100"
    using assms by simp
  have "py_slice_from (- 100) (drop k es) = drop k es"
    using l py_slice_from_neg [of 100 "drop k es"] by simp
  then show ?thesis
    using h l by (simp add: get_recent_events_def)
qed

theorem history_bound_after_overflow_witness:
  "length (map (\<lambda>i. \<lparr>spell_name = PARSE, daemon_name = None, success = True,
                        description = [], timestamp = i, metadata = []\<rparr>) [0..<101]) = 100 + 1
   \<and> length (event_history (emit_all
         (map (\<lambda>i. \<lparr>spell_name = PARSE, daemon_name = None, success = True,
                      description = [], timestamp = i, metadata = []\<rparr>) [0..<101]) new_bus)) = 100
   \<and> event_history (emit_all
         (map (\<lambda>i. \<lparr>spell_name = PARSE, daemon_name = None, success = True,
                      description = [], timestamp = i, metadata = []\<rparr>) [0..<101]) new_bus)
       = drop 1 (map (\<lambda>i. \<lparr>spell_name = PARSE, daemon_name = None, success = True,
                      description = [], timestamp = i, metadata = []\<rparr>) [0..<101])"
  using history_bound_after_overflow
    [of "map (\<lambda>i. \<lparr>spell_name = PARSE, daemon_name = None, success = True,
                      description = [], timestamp = i, metadata = []\<rparr>) [0..<101]" 1]
  by simp

text \<open>
  C10. \<open>get_recent_events 0\<close> returns the whole stored history, which holds at most 100
  events, because \<open>[-0:]\<close> is the whole list; the argument bounds the result only from
  \<open>count = 1\<close> on, where the result is the last \<open>count\<close> events.
\<close>

theorem get_recent_events_zero_is_whole_history:
  "get_recent_events 0 bus = map to_dict (event_history bus)
   \<and> length (get_recent_events 0 (emit_all es new_bus)) = min (length es) 100
   \<and> (0 < count \<longrightarrow>
        get_recent_events count bus =
          map to_dict (drop (length (event_history bus) - nat count) (event_history bus))
        \<and> length (get_recent_events count bus) = min (nat count) (length (event_history bus)))"
proof -
  have a: "get_recent_events 0 bus = map to_dict (event_history bus)" for bus
    by (simp add: get_recent_events_def py_slice_from_zero)
  have "event_history (emit_all es new_bus) = drop (length es - 100) es"
    using history_emit_all [of new_bus es] by (simp add: new_bus_def)
  then have b: "length (get_recent_events 0 (emit_all es new_bus)) = min (length es) 100"
    by (simp add: a)
  have c: "get_recent_events count bus =
             map to_dict (drop (length (event_history bus) - nat count) (event_history bus))"
    if "0 < count"
    using that by (simp add: get_recent_events_def py_slice_from_neg)
  show ?thesis
    using a b c by auto
qed

theorem get_recent_events_zero_is_whole_history_witness:
  "get_recent_events 0
      (emit_all [\<lparr>spell_name = SUMMON, daemon_name = Some ''claude'', success = True,
                  description = [], timestamp = 1, metadata = []\<rparr>,
                 \<lparr>spell_name = INVOKE, daemon_name = Some ''claude'', success = True,
                  description = [], timestamp = 2, metadata = []\<rparr>,
                 \<lparr>spell_name = BANISH, daemon_name = Some ''claude'', success = True,
                  description = [], timestamp = 3, metadata = []\<rparr>] new_bus)
    = map to_dict
       [\<lparr>spell_name = SUMMON, daemon_name = Some ''claude'', success = True,
         description = [], timestamp = 1, metadata = []\<rparr>,
        \<lparr>spell_name = INVOKE, daemon_name = Some ''claude'', success = True,
         description = [], timestamp = 2, metadata = []\<rparr>,
        \<lparr>spell_name = BANISH, daemon_name = Some ''claude'', success = True,
         description = [], timestamp = 3, metadata = []\<rparr>]
   \<and> (0::int) < 2
   \<and> length (get_recent_events 2
      (emit_all [\<lparr>spell_name = SUMMON, daemon_name = Some ''claude'', success = True,
                  description = [], timestamp = 1, metadata = []\<rparr>,
                 \<lparr>spell_name = INVOKE, daemon_name = Some ''claude'', success = True,
                  description = [], timestamp = 2, metadata = []\<rparr>,
                 \<lparr>spell_name = BANISH, daemon_name = Some ''claude'', success = True,
                  description = [], timestamp = 3, metadata = []\<rparr>] new_bus)) = 2"
  using get_recent_events_zero_is_whole_history
    [of "emit_all [\<lparr>spell_name = SUMMON, daemon_name = Some ''claude'', success = True,
                  description = [], timestamp = 1, metadata = []\<rparr>,
                 \<lparr>spell_name = INVOKE, daemon_name = Some ''claude'', success = True,
                  description = [], timestamp = 2, metadata = []\<rparr>,
                 \<lparr>spell_name = BANISH, daemon_name = Some ''claude'', success = True,
                  description = [], timestamp = 3, metadata = []\<rparr>] new_bus" "[]" 2]
  by (simp add: emit_def new_bus_def Let_def)

section \<open>app/services/raindrop\_client.py\<close>

datatype DaemonType = CLAUDE | GEMINI | LIQUIDMETAL

fun daemon_value :: "DaemonType \<Rightarrow> string" where
  "daemon_value CLAUDE = ''claude''"
| "daemon_value GEMINI = ''gemini''"
| "daemon_value LIQUIDMETAL = ''liquidmetal''"

datatype ModelProvider = ANTHROPIC | GOOGLE | CUSTOM

fun provider_value :: "ModelProvider \<Rightarrow> string" where
  "provider_value ANTHROPIC = ''anthropic''"
| "provider_value GOOGLE = ''google''"
| "provider_value CUSTOM = ''custom''"

text \<open>
  The exceptions of the registry, of the MCP client and of the router. The detail of an
  \<open>HTTPException\<close> is one of the messages of the source, with the daemon it names, the
  message of a \<open>ParseError\<close>, or the plan of a decision that has no target.
\<close>

datatype detail =
    Unknown_to_this_realm DaemonType
  | Already_walks_among_us DaemonType
  | Slumbers_in_the_void DaemonType
  | Not_registered_with_MCP DaemonType
  | Failed_to_register DaemonType
  | Not_present_in_this_realm DaemonType
  | Invocation_failed string
  | Unparseable string
  | No_safe_plan "string list"

datatype error =
    HTTPException (status_code: nat) (http_detail: detail)
  | ValueError string

record tool_config =
  tc_tool_name :: string
  tc_model :: string
  tc_provider :: string
  tc_capabilities :: "string list"
  tc_metadata :: "(string \<times> py) list"
  tc_registered_at :: nat

record MCPToolResult =
  r_success :: bool
  r_result :: py
  r_execution_time :: real
  r_metadata :: "(string \<times> py) list"
  r_timestamp :: nat

text \<open>
  What the operations read from outside: the clock, whether an event loop is running and
  how many frames the interpreter's recursion limit still allows, the display mode, and
  the backing capability behind \<open>invoke_tool\<close> (\<open>_mock_invoke\<close>, in production the
  SDK call), which returns its output or raises (\<open>Inl\<close> carries \<open>str(e)\<close>), with the
  time the call took. \<open>render\<close> is Python's \<open>str\<close> on a result.
\<close>

record env =
  now :: nat
  loop_running :: bool
  recursion_limit :: nat
  fantasy_mode :: bool
  backend :: "string \<Rightarrow> string \<Rightarrow> (string \<times> py) list option \<Rightarrow> tool_config \<Rightarrow> string + py"
  elapsed :: real
  render :: "py \<Rightarrow> string"

definition register_tool ::
  "env \<Rightarrow> string \<Rightarrow> string \<Rightarrow> ModelProvider \<Rightarrow> string list \<Rightarrow> (string \<times> py) list option
   \<Rightarrow> (string \<rightharpoonup> tool_config) \<Rightarrow> (string \<rightharpoonup> tool_config) \<times> bool" where
  "register_tool e tool_name model provider capabilities meta tools =
     (tools(tool_name \<mapsto>
        \<lparr> tc_tool_name = tool_name, tc_model = model, tc_provider = provider_value provider,
          tc_capabilities = capabilities,
          tc_metadata = (case meta of None \<Rightarrow> [] | Some m \<Rightarrow> m),
          tc_registered_at = now e \<rparr>), True)"

definition invoke_tool ::
  "env \<Rightarrow> string \<Rightarrow> string \<Rightarrow> (string \<times> py) list option \<Rightarrow> (string \<rightharpoonup> tool_config)
   \<Rightarrow> error + MCPToolResult" where
  "invoke_tool e tool_name task parameters tools =
     (case tools tool_name of
        None \<Rightarrow> Inl (ValueError (''Tool '' @ tool_name @ '' is not registered''))
      | Some tool_config \<Rightarrow>
          (case backend e tool_name task parameters tool_config of
             Inr result \<Rightarrow>
               Inr \<lparr> r_success = True, r_result = result, r_execution_time = elapsed e,
                     r_metadata = [(''tool_name'', PStr tool_name),
                                   (''model'', PStr (tc_model tool_config)),
                                   (''provider'', PStr (tc_provider tool_config)),
                                   (''parameters'',
                                      (case parameters of None \<Rightarrow> PNone | Some ps \<Rightarrow> PDict ps))],
                     r_timestamp = now e \<rparr>
           | Inl msg \<Rightarrow>
               Inr \<lparr> r_success = False, r_result = PDict [(''error'', PStr msg)],
                     r_execution_time = elapsed e,
                     r_metadata = [(''tool_name'', PStr tool_name), (''error'', PStr msg)],
                     r_timestamp = now e \<rparr>))"

definition unregister_tool ::
  "string \<Rightarrow> (string \<rightharpoonup> tool_config) \<Rightarrow> (string \<rightharpoonup> tool_config) \<times> bool" where
  "unregister_tool tool_name tools =
     (if tool_name \<in> dom tools then (tools(tool_name := None), True) else (tools, False))"

section \<open>app/services/daemon\_registry.py\<close>

datatype VoiceEvent = V_SUMMON | V_INVOKE | V_BANISH | V_FAILURE

text \<open>
  The coroutine objects the registry builds and hands to \<open>_safe_create_task\<close>: a call of
  one of the bus's emitters or of the voice service, with its arguments, not yet run.
\<close>

datatype coroutine =
    Emit_summon string bool "(string \<times> py) list"
  | Emit_invoke string string bool "real option" "(string \<times> py) list"
  | Emit_banish string nat real bool "(string \<times> py) list"
  | Play_voice_line DaemonType VoiceEvent "string option"

text \<open>
  \<open>RecursionError\<close> is a subclass of \<open>RuntimeError\<close>, so \<open>except RuntimeError\<close> catches both.
\<close>

datatype py_exn = RuntimeError | RecursionError

text \<open>
  \<open>_safe_create_task\<close>, on the list of tasks scheduled on the event loop. The first
  argument counts the frames left under the recursion limit: a call with none left raises
  \<open>RecursionError\<close> in its caller. The body asks for the running loop, which raises
  \<open>RuntimeError\<close> when there is none, and then calls \<open>_safe_create_task\<close> again; the
  handler logs and returns.
\<close>

fun safe_create_task :: "nat \<Rightarrow> bool \<Rightarrow> coroutine \<Rightarrow> coroutine list \<Rightarrow> py_exn + coroutine list" where
  "safe_create_task 0 running coro ts = Inl RecursionError"
| "safe_create_task (Suc n) running coro ts =
     (case (if running then safe_create_task n running coro ts else Inl RuntimeError) of
        Inl exn \<Rightarrow> Inr ts
      | Inr ts' \<Rightarrow> Inr ts')"

record Daemon =
  name :: DaemonType
  role :: string
  color_code :: string
  is_summoned :: bool
  invocation_count :: int
  daemon_metadata :: "(string \<times> py) list option"

record invocation =
  inv_task :: string
  inv_timestamp :: nat
  inv_execution_time :: real
  inv_success :: bool
  inv_result_summary :: string

text \<open>
  \<open>DaemonState.daemon\<close> is the object stored in \<open>_daemons\<close> under the same key, so the
  registry's two dictionaries are one map to the state, which holds the daemon.
\<close>

record DaemonState =
  daemon :: Daemon
  summoned_at :: "nat option"
  last_invoked_at :: "nat option"
  invocation_history :: "invocation list"
  total_execution_time :: real
  mcp_registered :: bool

record statistics =
  st_daemon_name :: string
  st_is_active :: bool
  st_summoned_at :: "nat option"
  st_last_invoked_at :: "nat option"
  st_total_invocations :: nat
  st_total_execution_time :: real
  st_average_execution_time :: real
  st_mcp_registered :: bool

record grimoire_entry =
  g_spell_name :: string
  g_spell_type :: string
  g_daemon_name :: string
  g_success :: bool
  g_execution_time :: "real option"

record model_config =
  mc_model :: string
  mc_provider :: ModelProvider
  mc_capabilities :: "string list"

fun MODEL_MAPPINGS :: "DaemonType \<Rightarrow> model_config" where
  "MODEL_MAPPINGS CLAUDE =
     \<lparr> mc_model = ''claude-3-5-sonnet-20241022'', mc_provider = ANTHROPIC,
       mc_capabilities = [''reasoning'', ''analysis'', ''code_generation'', ''logic''] \<rparr>"
| "MODEL_MAPPINGS GEMINI =
     \<lparr> mc_model = ''gemini-2.0-flash-exp'', mc_provider = GOOGLE,
       mc_capabilities = [''creativity'', ''multimodal'', ''vision'', ''innovation''] \<rparr>"
| "MODEL_MAPPINGS LIQUIDMETAL =
     \<lparr> mc_model = ''liquidmetal-adaptive-v1'', mc_provider = CUSTOM,
       mc_capabilities = [''transformation'', ''adaptation'', ''flow'', ''custom_tasks''] \<rparr>"

text \<open>
  The registry with what it shares: the MCP client's tool table, the tasks scheduled on
  the event loop and the grimoire's records.
\<close>

record registry =
  daemon_states :: "DaemonType \<rightharpoonup> DaemonState"
  mcp_tools :: "string \<rightharpoonup> tool_config"
  tasks :: "coroutine list"
  grimoire :: "grimoire_entry list"

text \<open>Python's \<open>d[k] = v\<close> on an insertion-ordered dictionary.\<close>

fun dict_set :: "'k \<Rightarrow> 'v \<Rightarrow> ('k \<times> 'v) list \<Rightarrow> ('k \<times> 'v) list" where
  "dict_set k v [] = [(k, v)]"
| "dict_set k v ((k', v') # kvs) = (if k = k' then (k, v) # kvs else (k', v') # dict_set k v kvs)"

fun initial_daemon :: "DaemonType \<Rightarrow> Daemon" where
  "initial_daemon CLAUDE =
     \<lparr> name = CLAUDE, role = ''Keeper of Logic and Reason'', color_code = ''#8B5CF6'',
       is_summoned = False, invocation_count = 0,
       daemon_metadata = Some [(''element'', PStr ''Aether''),
                               (''domain'', PStr ''Reasoning and Analysis''),
                               (''power_level'', PInt 9000),
                               (''model'', PStr (mc_model (MODEL_MAPPINGS CLAUDE)))] \<rparr>"
| "initial_daemon GEMINI =
     \<lparr> name = GEMINI, role = ''Weaver of Dreams and Innovation'', color_code = ''#F59E0B'',
       is_summoned = False, invocation_count = 0,
       daemon_metadata = Some [(''element'', PStr ''Fire''),
                               (''domain'', PStr ''Creativity and Multimodality''),
                               (''power_level'', PInt 8500),
                               (''model'', PStr (mc_model (MODEL_MAPPINGS GEMINI)))] \<rparr>"
| "initial_daemon LIQUIDMETAL =
     \<lparr> name = LIQUIDMETAL, role = ''Master of Transformation and Flow'', color_code = ''#06B6D4'',
       is_summoned = False, invocation_count = 0,
       daemon_metadata = Some [(''element'', PStr ''Water''),
                               (''domain'', PStr ''Transformation and Adaptation''),
                               (''power_level'', PInt 9500),
                               (''model'', PStr (mc_model (MODEL_MAPPINGS LIQUIDMETAL)))] \<rparr>"

definition new_state :: "Daemon \<Rightarrow> DaemonState" where
  "new_state d =
     \<lparr> daemon = d, summoned_at = None, last_invoked_at = None, invocation_history = [],
       total_execution_time = 0, mcp_registered = False \<rparr>"

definition new_registry :: registry where
  "new_registry =
     \<lparr> daemon_states = (\<lambda>t. Some (new_state (initial_daemon t))),
       mcp_tools = Map.empty, tasks = [], grimoire = [] \<rparr>"

text \<open>
  A call \<open>_safe_create_task(coro)\<close> from the registry: the call itself has a frame, and
  \<open>recursion_limit\<close> frames are left under it.
\<close>

definition schedule :: "env \<Rightarrow> coroutine \<Rightarrow> registry \<Rightarrow> registry" where
  "schedule e coro w =
     (case safe_create_task (Suc (recursion_limit e)) (loop_running e) coro (tasks w) of
        Inr ts \<Rightarrow> w\<lparr>tasks := ts\<rparr>
      | Inl exn \<Rightarrow> w)"

text \<open>The message of an exception, as \<open>exc.detail\<close> and \<open>str(exc)\<close> give it.\<close>

fun detail_text :: "detail \<Rightarrow> string" where
  "detail_text (Unknown_to_this_realm t) =
     ''The daemon '' @ daemon_value t @ '' is unknown to this realm''"
| "detail_text (Already_walks_among_us t) =
     ''The daemon '' @ daemon_value t @ '' already walks among us''"
| "detail_text (Slumbers_in_the_void t) =
     ''The daemon '' @ daemon_value t @ '' slumbers in the void. Summon it first.''"
| "detail_text (Not_registered_with_MCP t) =
     ''The daemon '' @ daemon_value t @ '' is not registered with MCP. ''
       @ ''This should not happen - try re-summoning.''"
| "detail_text (Failed_to_register t) =
     ''Failed to register daemon '' @ daemon_value t @ '' with Raindrop MCP''"
| "detail_text (Not_present_in_this_realm t) =
     ''The daemon '' @ daemon_value t @ '' is not present in this realm''"
| "detail_text (Invocation_failed msg) = ''Invocation failed: '' @ msg"
| "detail_text (Unparseable msg) = msg"
| "detail_text (No_safe_plan steps) = concat steps"

fun error_text :: "error \<Rightarrow> string" where
  "error_text (HTTPException code d) = detail_text d"
| "error_text (ValueError msg) = msg"

definition register_daemon ::
  "env \<Rightarrow> DaemonType \<Rightarrow> string \<Rightarrow> string \<Rightarrow> string option \<Rightarrow> string list option
   \<Rightarrow> registry \<Rightarrow> registry \<times> (error + Daemon)" where
  "register_daemon e nm model new_role new_color capabilities w =
     (case daemon_states w nm of
        None \<Rightarrow> (w, Inl (HTTPException 404 (Unknown_to_this_realm nm)))
      | Some state \<Rightarrow>
          (let d0 = daemon state;
               d1 = (case new_color of
                       None \<Rightarrow> d0
                     | Some c \<Rightarrow> if c \<noteq> [] then d0\<lparr>color_code := c\<rparr> else d0);
               d2 = (if new_role \<noteq> [] then d1\<lparr>role := new_role\<rparr> else d1);
               d3 = d2\<lparr>daemon_metadata :=
                         Some (case daemon_metadata d2 of
                                 None \<Rightarrow> [(''model'', PStr model)]
                               | Some m \<Rightarrow> dict_set ''model'' (PStr model) m)\<rparr>;
               cfg = MODEL_MAPPINGS nm;
               tool_capabilities =
                 (case capabilities of
                    None \<Rightarrow> mc_capabilities cfg
                  | Some cs \<Rightarrow> if cs \<noteq> [] then cs else mc_capabilities cfg);
               reg = register_tool e (daemon_value nm) model (mc_provider cfg) tool_capabilities
                       (Some [(''role'', PStr (role d3)), (''color_code'', PStr (color_code d3)),
                              (''daemon_metadata'',
                                 (case daemon_metadata d3 of None \<Rightarrow> PNone | Some m \<Rightarrow> PDict m))])
                       (mcp_tools w)
           in if snd reg
              then (w\<lparr> daemon_states :=
                           (daemon_states w)(nm \<mapsto> state\<lparr>daemon := d3, mcp_registered := True\<rparr>),
                        mcp_tools := fst reg \<rparr>,
                    Inr d3)
              else (w\<lparr> daemon_states := (daemon_states w)(nm \<mapsto> state\<lparr>daemon := d3\<rparr>),
                        mcp_tools := fst reg \<rparr>,
                    Inl (HTTPException 500 (Failed_to_register nm)))))"

text \<open>
  \<open>summon\<close>: the body of the \<open>try\<close>, then the handlers. The state changed before a
  \<open>raise\<close> stays changed, so the registry is returned beside the error.
\<close>

definition summon_try :: "env \<Rightarrow> DaemonType \<Rightarrow> registry \<Rightarrow> registry \<times> (error + Daemon)" where
  "summon_try e nm w =
     (case daemon_states w nm of
        None \<Rightarrow> (w, Inl (HTTPException 404 (Unknown_to_this_realm nm)))
      | Some state \<Rightarrow>
          if is_summoned (daemon state)
          then (w, Inl (HTTPException 400 (Already_walks_among_us nm)))
          else
            (let state1 = state\<lparr> daemon := (daemon state)\<lparr>is_summoned := True, invocation_count := 0\<rparr>,
                                 summoned_at := Some (now e) \<rparr>;
                 w1 = w\<lparr>daemon_states := (daemon_states w)(nm \<mapsto> state1)\<rparr>;
                 cfg = MODEL_MAPPINGS nm;
                 reg = (if \<not> mcp_registered state1
                        then register_daemon e nm (mc_model cfg) (role (daemon state1)) None
                               (Some (mc_capabilities cfg)) w1
                        else (w1, Inr (daemon state1)))
             in case snd reg of
                  Inl exc \<Rightarrow> (fst reg, Inl exc)
                | Inr d \<Rightarrow>
                    (let w2 = schedule e
                                (Emit_summon (daemon_value nm) True
                                   [(''model'', PStr (mc_model cfg)),
                                    (''sync_context'', PStr ''summon'')])
                                (fst reg);
                         w3 = schedule e (Play_voice_line nm V_SUMMON None) w2;
                         w4 = w3\<lparr>grimoire := grimoire w3 @
                                  [\<lparr> g_spell_name = ''summon_'' @ daemon_value nm,
                                     g_spell_type = ''summon'', g_daemon_name = daemon_value nm,
                                     g_success = True, g_execution_time = None \<rparr>]\<rparr>
                     in (w4, Inr d))))"

definition summon :: "env \<Rightarrow> DaemonType \<Rightarrow> registry \<Rightarrow> registry \<times> (error + Daemon)" where
  "summon e nm w =
     (case snd (summon_try e nm w) of
        Inr d \<Rightarrow> summon_try e nm w
      | Inl exc \<Rightarrow>
          (let failure_phrase =
                 ''The summoning of '' @ daemon_value nm @ '' falters: '' @ error_text exc;
               w1 = schedule e
                      (Emit_summon (daemon_value nm) False
                         [(''error'', PStr (error_text exc)),
                          (''failure_phrase'', PStr failure_phrase),
                          (''sync_context'', PStr ''summon'')])
                      (fst (summon_try e nm w));
               w2 = schedule e (Play_voice_line nm V_FAILURE (Some failure_phrase)) w1
           in (w2, Inl exc)))"

definition record_invocation :: "env \<Rightarrow> string \<Rightarrow> MCPToolResult \<Rightarrow> DaemonState \<Rightarrow> DaemonState" where
  "record_invocation e task res state =
     state\<lparr> last_invoked_at := Some (now e),
            total_execution_time := total_execution_time state + r_execution_time res,
            invocation_history := invocation_history state @
              [\<lparr> inv_task = task, inv_timestamp = r_timestamp res,
                 inv_execution_time = r_execution_time res, inv_success = r_success res,
                 inv_result_summary = take 200 (render e (r_result res)) \<rparr>] \<rparr>"

text \<open>\<open>round(x, 3)\<close>, on the reals.\<close>

definition round3 :: "real \<Rightarrow> real" where
  "round3 x = real_of_int (round (x * 1000)) / 1000"

definition get_statistics :: "DaemonState \<Rightarrow> statistics" where
  "get_statistics state =
     \<lparr> st_daemon_name = daemon_value (name (daemon state)),
       st_is_active = is_summoned (daemon state),
       st_summoned_at = summoned_at state,
       st_last_invoked_at = last_invoked_at state,
       st_total_invocations = length (invocation_history state),
       st_total_execution_time = round3 (total_execution_time state),
       st_average_execution_time =
         (if invocation_history state \<noteq> []
          then round3 (total_execution_time state / real (length (invocation_history state)))
          else 0),
       st_mcp_registered = mcp_registered state \<rparr>"

record invoke_result =
  ir_daemon :: Daemon
  ir_result :: py
  ir_execution_time :: real
  ir_success :: bool
  ir_metadata :: "(string \<times> py) list"
  ir_invocation_number :: int

definition invoke_try ::
  "env \<Rightarrow> DaemonType \<Rightarrow> string \<Rightarrow> (string \<times> py) list option \<Rightarrow> registry
   \<Rightarrow> registry \<times> (error + invoke_result)" where
  "invoke_try e nm task parameters w =
     (case daemon_states w nm of
        None \<Rightarrow> (w, Inl (HTTPException 404 (Unknown_to_this_realm nm)))
      | Some state \<Rightarrow>
          if \<not> is_summoned (daemon state)
          then (w, Inl (HTTPException 400 (Slumbers_in_the_void nm)))
          else if \<not> mcp_registered state
          then (w, Inl (HTTPException 500 (Not_registered_with_MCP nm)))
          else
            (case invoke_tool e (daemon_value nm) task parameters (mcp_tools w) of
               Inl exc \<Rightarrow> (w, Inl exc)
             | Inr res \<Rightarrow>
                 (let d1 = (daemon state)\<lparr>invocation_count := invocation_count (daemon state) + 1\<rparr>;
                      state1 = record_invocation e task res (state\<lparr>daemon := d1\<rparr>);
                      w1 = w\<lparr>daemon_states := (daemon_states w)(nm \<mapsto> state1)\<rparr>;
                      params_py = (case parameters of None \<Rightarrow> PNone | Some ps \<Rightarrow> PDict ps);
                      meta0 = [(''parameters'', params_py),
                               (''invocation_number'', PInt (invocation_count d1)),
                               (''sync_context'', PStr ''invoke'')];
                      failure_phrase =
                        daemon_value nm @ '' reports failure while invoking '' @ task;
                      meta = (if r_success res
                              then meta0 @ [(''success_payload'', r_result res)]
                              else meta0 @ [(''error'', r_result res),
                                            (''failure_phrase'', PStr failure_phrase)]);
                      w2 = (if r_success res
                            then schedule e (Play_voice_line nm V_INVOKE None) w1
                            else schedule e (Play_voice_line nm V_FAILURE (Some failure_phrase)) w1);
                      w3 = schedule e
                             (Emit_invoke (daemon_value nm) task (r_success res)
                                (Some (r_execution_time res)) meta) w2;
                      w4 = w3\<lparr>grimoire := grimoire w3 @
                               [\<lparr> g_spell_name = ''invoke_'' @ daemon_value nm,
                                  g_spell_type = ''invoke'', g_daemon_name = daemon_value nm,
                                  g_success = r_success res,
                                  g_execution_time = Some (r_execution_time res) \<rparr>]\<rparr>
                  in (w4, Inr \<lparr> ir_daemon = d1, ir_result = r_result res,
                                 ir_execution_time = r_execution_time res,
                                 ir_success = r_success res, ir_metadata = r_metadata res,
                                 ir_invocation_number = invocation_count d1 \<rparr>))))"

text \<open>
  The handlers of \<open>invoke_daemon\<close>: an \<open>HTTPException\<close> is raised again as it is, any
  other exception becomes an \<open>HTTPException\<close> with status 500.
\<close>

definition invoke_daemon ::
  "env \<Rightarrow> DaemonType \<Rightarrow> string \<Rightarrow> (string \<times> py) list option \<Rightarrow> registry
   \<Rightarrow> registry \<times> (error + invoke_result)" where
  "invoke_daemon e nm task parameters w =
     (case snd (invoke_try e nm task parameters w) of
        Inr res \<Rightarrow> invoke_try e nm task parameters w
      | Inl exc \<Rightarrow>
          (let failure_phrase =
                 (case exc of
                    HTTPException code d \<Rightarrow>
                      ''Invocation of '' @ daemon_value nm @ '' falters: '' @ error_text exc
                  | ValueError msg \<Rightarrow>
                      ''Arcane backlash disrupts '' @ daemon_value nm @ '': '' @ msg);
               w1 = schedule e
                      (Emit_invoke (daemon_value nm) task False None
                         [(''error'', PStr (error_text exc)),
                          (''failure_phrase'', PStr failure_phrase),
                          (''task'', PStr task),
                          (''sync_context'', PStr ''invoke'')])
                      (fst (invoke_try e nm task parameters w));
               w2 = schedule e (Play_voice_line nm V_FAILURE (Some failure_phrase)) w1
           in (w2, Inl (case exc of
                          HTTPException code d \<Rightarrow> exc
                        | ValueError msg \<Rightarrow> HTTPException 500 (Invocation_failed msg)))))"

record banish_result =
  br_daemon :: Daemon
  br_statistics :: statistics

definition banish_try :: "env \<Rightarrow> DaemonType \<Rightarrow> registry \<Rightarrow> registry \<times> (error + banish_result)" where
  "banish_try e nm w =
     (case daemon_states w nm of
        None \<Rightarrow> (w, Inl (HTTPException 404 (Unknown_to_this_realm nm)))
      | Some state \<Rightarrow>
          if \<not> is_summoned (daemon state)
          then (w, Inl (HTTPException 400 (Not_present_in_this_realm nm)))
          else
            (let stats = get_statistics state;
                 tools1 = (if mcp_registered state
                           then fst (unregister_tool (daemon_value nm) (mcp_tools w))
                           else mcp_tools w);
                 d1 = (daemon state)\<lparr>is_summoned := False\<rparr>;
                 state1 = state\<lparr>daemon := d1, mcp_registered := False\<rparr>;
                 w1 = w\<lparr>daemon_states := (daemon_states w)(nm \<mapsto> state1), mcp_tools := tools1\<rparr>;
                 w2 = schedule e
                        (Emit_banish (daemon_value nm) (st_total_invocations stats)
                           (st_total_execution_time stats) True
                           [(''daemon_name'', PStr (st_daemon_name stats)),
                            (''is_active'', PBool (st_is_active stats)),
                            (''total_invocations'', PInt (int (st_total_invocations stats))),
                            (''total_execution_time'', PFloat (st_total_execution_time stats)),
                            (''average_execution_time'', PFloat (st_average_execution_time stats)),
                            (''mcp_registered'', PBool (st_mcp_registered stats)),
                            (''sync_context'', PStr ''banish'')])
                        w1;
                 w3 = schedule e (Play_voice_line nm V_BANISH None) w2;
                 w4 = w3\<lparr>grimoire := grimoire w3 @
                          [\<lparr> g_spell_name = ''banish_'' @ daemon_value nm,
                             g_spell_type = ''banish'', g_daemon_name = daemon_value nm,
                             g_success = True,
                             g_execution_time = Some (st_total_execution_time stats) \<rparr>]\<rparr>
             in (w4, Inr \<lparr> br_daemon = d1, br_statistics = stats \<rparr>)))"

definition banish_daemon :: "env \<Rightarrow> DaemonType \<Rightarrow> registry \<Rightarrow> registry \<times> (error + banish_result)" where
  "banish_daemon e nm w =
     (case snd (banish_try e nm w) of
        Inr res \<Rightarrow> banish_try e nm w
      | Inl exc \<Rightarrow>
          (let failure_phrase =
                 ''Banishment of '' @ daemon_value nm @ '' fails: '' @ error_text exc;
               w1 = schedule e
                      (Emit_banish (daemon_value nm) 0 0 False
                         [(''error'', PStr (error_text exc)),
                          (''failure_phrase'', PStr failure_phrase),
                          (''sync_context'', PStr ''banish'')])
                      (fst (banish_try e nm w));
               w2 = schedule e (Play_voice_line nm V_FAILURE (Some failure_phrase)) w1
           in (w2, Inl exc)))"

text \<open>
  What the event loop does with a scheduled task. The emitters of the bus build the event
  (the decorative glyph of the descriptions is left out) and \<open>emit\<close> it; the sync
  directives depend on the display mode; the failure phrase in the metadata is a text
  wherever the registry sets it. The voice service is an external collaborator: its
  events are of kind \<open>VOICE\<close> and are not modelled.
\<close>

definition build_sync_directives :: "bool \<Rightarrow> bool \<Rightarrow> string option \<Rightarrow> (string \<times> py) list" where
  "build_sync_directives fantasy succ failure_phrase =
     (if \<not> fantasy
      then [(''mode'', PStr ''developer''), (''deadline_ms'', PInt 50), (''animation'', PNone),
            (''particles'', PStr ''halt''), (''audio'', PNone), (''invert'', PBool False)]
           @ (case failure_phrase of
                None \<Rightarrow> []
              | Some p \<Rightarrow> if p \<noteq> [] then [(''failure'', PStr p)] else [])
      else [(''mode'', PStr ''fantasy''), (''deadline_ms'', PInt 200)]
           @ (if succ
              then [(''animation'', PStr ''pulse''), (''particles'', PStr ''fade_to_idle''),
                    (''audio'', PStr ''success''), (''invert'', PBool False)]
              else [(''animation'', PStr ''invert''), (''particles'', PStr ''halt''),
                    (''audio'', PStr ''error''), (''invert'', PBool True),
                    (''text_color'', PStr ''#ff1744'')]
                   @ (case failure_phrase of
                        None \<Rightarrow> []
                      | Some p \<Rightarrow> if p \<noteq> [] then [(''display_text'', PStr p)] else [])))"

definition setdefault :: "'k \<Rightarrow> 'v \<Rightarrow> ('k \<times> 'v) list \<Rightarrow> ('k \<times> 'v) list" where
  "setdefault k v kvs = (if k \<in> fst ` set kvs then kvs else kvs @ [(k, v)])"

definition upper_char :: "char \<Rightarrow> char" where
  "upper_char c =
     (case map_of (zip ''abcdefghijklmnopqrstuvwxyz'' ''ABCDEFGHIJKLMNOPQRSTUVWXYZ'') c of
        None \<Rightarrow> c | Some u \<Rightarrow> u)"

definition with_sync :: "env \<Rightarrow> bool \<Rightarrow> (string \<times> py) list \<Rightarrow> (string \<times> py) list" where
  "with_sync e succ meta =
     setdefault ''sync''
       (PDict (build_sync_directives (fantasy_mode e) succ
                 (case map_of meta ''failure_phrase'' of Some (PStr p) \<Rightarrow> Some p | _ \<Rightarrow> None)))
       meta"

fun run_coroutine :: "env \<Rightarrow> coroutine \<Rightarrow> ArcaneEventBus \<Rightarrow> ArcaneEventBus" where
  "run_coroutine e (Emit_summon dn succ meta) bus =
     emit \<lparr> spell_name = SUMMON, daemon_name = Some dn, success = succ,
            description = (if succ
                           then ''The runes pulse as '' @ map upper_char dn @ '' materializes.''
                           else map upper_char dn @ '' resists the call.''),
            timestamp = now e, metadata = with_sync e succ meta \<rparr> bus"
| "run_coroutine e (Emit_invoke dn task succ execution_time meta) bus =
     emit \<lparr> spell_name = INVOKE, daemon_name = Some dn, success = succ,
            description = (if succ
                           then map upper_char dn @ '' completes '' @ task @ ''.''
                           else map upper_char dn @ '' falters on '' @ task @ ''.''),
            timestamp = now e,
            metadata = dict_set ''execution_time''
                         (case execution_time of None \<Rightarrow> PNone | Some t \<Rightarrow> PFloat t)
                         (dict_set ''task'' (PStr task) (with_sync e succ meta)) \<rparr> bus"
| "run_coroutine e (Emit_banish dn n total_time succ meta) bus =
     emit \<lparr> spell_name = BANISH, daemon_name = Some dn, success = succ,
            description = (if succ
                           then map upper_char dn @ '' returns to the ethereal void.''
                           else map upper_char dn @ '' resists banishment.''),
            timestamp = now e,
            metadata = dict_set ''total_time'' (PFloat total_time)
                         (dict_set ''invocation_count'' (PInt (int n)) (with_sync e succ meta)) \<rparr> bus"
| "run_coroutine e (Play_voice_line d ev override_text) bus = bus"

text \<open>The event loop runs the scheduled tasks in order.\<close>

fun run_tasks :: "env \<Rightarrow> coroutine list \<Rightarrow> ArcaneEventBus \<Rightarrow> ArcaneEventBus" where
  "run_tasks e [] bus = bus"
| "run_tasks e (c # cs) bus = run_tasks e cs (run_coroutine e c bus)"

text \<open>
  An environment for the evaluations below: an event loop is running, and the backing
  capability raises.
\<close>

definition sample_env :: env where
  "sample_env =
     \<lparr> now = 7, loop_running = True, recursion_limit = 1000, fantasy_mode = True,
       backend = (\<lambda>tool task ps cfg. Inl ''connection reset''),
       elapsed = 1 / 100, render = (\<lambda>v. ''{error: connection reset}'') \<rparr>"

section \<open>The lifecycle of a daemon\<close>

lemma safe_create_task_never_schedules:
  "safe_create_task (Suc n) running coro ts = Inr ts"
proof (induction n)
  case 0
  show ?case by simp
next
  case (Suc n)
  have "safe_create_task (Suc (Suc n)) running coro ts =
          (case (if running then safe_create_task (Suc n) running coro ts else Inl RuntimeError) of
             Inl exn \<Rightarrow> Inr ts | Inr ts' \<Rightarrow> Inr ts')"
    by (rule safe_create_task.simps(2))
  also have "\<dots> = Inr ts"
    by (simp only: Suc.IH) simp
  finally show ?case .
qed

lemma schedule_id [simp]: "schedule e coro w = w"
  by (simp add: schedule_def safe_create_task_never_schedules del: safe_create_task.simps)

lemma register_daemon_states:
  "daemon_states w nm = Some st \<Longrightarrow>
   \<exists>st'. daemon_states (fst (register_daemon e nm model r c caps w)) nm = Some st'
       \<and> is_summoned (daemon st') = is_summoned (daemon st)
       \<and> invocation_count (daemon st') = invocation_count (daemon st)"
  by (simp add: register_daemon_def Let_def register_tool_def split: option.splits)

lemma summon_summoned:
  assumes "daemon_states w nm = Some st"
  shows "\<exists>st'. daemon_states (fst (summon e nm w)) nm = Some st' \<and> is_summoned (daemon st')"
proof (cases "is_summoned (daemon st)")
  case True
  with assms show ?thesis
    by (simp add: summon_def summon_try_def Let_def)
next
  case False
  with assms show ?thesis
    by (auto simp add: summon_def summon_try_def Let_def register_daemon_def register_tool_def
          split: option.splits sum.splits)
qed

lemma summon_again:
  assumes "daemon_states w nm = Some st" "is_summoned (daemon st)"
  shows "summon e nm w = (w, Inl (HTTPException 400 (Already_walks_among_us nm)))"
  using assms by (simp add: summon_def summon_try_def Let_def)

lemma invoke_not_summoned:
  assumes "daemon_states w nm = Some st" "\<not> is_summoned (daemon st)"
  shows "invoke_daemon e nm task ps w = (w, Inl (HTTPException 400 (Slumbers_in_the_void nm)))"
  using assms by (simp add: invoke_daemon_def invoke_try_def Let_def)

lemma banish_not_summoned:
  assumes "daemon_states w nm = Some st" "\<not> is_summoned (daemon st)"
  shows "banish_daemon e nm w = (w, Inl (HTTPException 400 (Not_present_in_this_realm nm)))"
  using assms by (simp add: banish_daemon_def banish_try_def Let_def)

lemma banish_ok_dormant:
  assumes "snd (banish_daemon e nm w) = Inr r"
  shows "\<exists>st'. daemon_states (fst (banish_daemon e nm w)) nm = Some st' \<and> \<not> is_summoned (daemon st')"
  using assms
  by (auto simp add: banish_daemon_def banish_try_def Let_def split: option.splits if_splits sum.splits)

text \<open>
  C1. The claim: summoning a known daemon that is not summoned succeeds and puts exactly
  one summon event with \<open>success = True\<close> on the bus. The code at a fresh registry, in any
  environment, so also under a running event loop: the summon succeeds, but
  \<open>_safe_create_task\<close> calls itself where it should create the task, no task is
  scheduled, and the bus the event loop leaves behind is the bus as it was.
\<close>

theorem summon_schedules_no_event:
  "map_sum id is_summoned (snd (summon e W new_registry)) = Inr True
   \<and> tasks (fst (summon e W new_registry)) = []
   \<and> run_tasks e (tasks (fst (summon e W new_registry))) bus = bus"
  by (cases W) (simp_all add: summon_def summon_try_def Let_def new_registry_def new_state_def
        register_daemon_def register_tool_def)

text \<open>
  C2. For a known daemon: a second \<open>summon\<close> with no \<open>banish\<close> between fails with status
  400 (already summoned); \<open>invoke_daemon\<close> on a daemon that is not summoned fails with
  status 400 (not summoned); after a successful \<open>banish_daemon\<close> a second one fails with
  status 400 (not summoned). In each failure the daemon states, with the summoned flags
  and the invocation counters, are the ones before the call.
\<close>

theorem lifecycle_precondition_errors:
  assumes "daemon_states w W = Some st"
  shows "snd (summon e2 W (fst (summon e1 W w))) = Inl (HTTPException 400 (Already_walks_among_us W))
       \<and> daemon_states (fst (summon e2 W (fst (summon e1 W w)))) = daemon_states (fst (summon e1 W w))
       \<and> (\<not> is_summoned (daemon st) \<longrightarrow>
            snd (invoke_daemon e1 W task ps w) = Inl (HTTPException 400 (Slumbers_in_the_void W))
            \<and> daemon_states (fst (invoke_daemon e1 W task ps w)) = daemon_states w)
       \<and> ((\<exists>r. snd (banish_daemon e1 W w) = Inr r) \<longrightarrow>
            snd (banish_daemon e2 W (fst (banish_daemon e1 W w)))
              = Inl (HTTPException 400 (Not_present_in_this_realm W))
            \<and> daemon_states (fst (banish_daemon e2 W (fst (banish_daemon e1 W w))))
              = daemon_states (fst (banish_daemon e1 W w)))"
proof -
  obtain st1 where "daemon_states (fst (summon e1 W w)) W = Some st1" "is_summoned (daemon st1)"
    using summon_summoned [OF assms] by blast
  then have a: "summon e2 W (fst (summon e1 W w))
                 = (fst (summon e1 W w), Inl (HTTPException 400 (Already_walks_among_us W)))"
    by (rule summon_again)
  have b: "invoke_daemon e1 W task ps w = (w, Inl (HTTPException 400 (Slumbers_in_the_void W)))"
    if "\<not> is_summoned (daemon st)"
    using assms that by (rule invoke_not_summoned)
  have c: "banish_daemon e2 W (fst (banish_daemon e1 W w))
            = (fst (banish_daemon e1 W w), Inl (HTTPException 400 (Not_present_in_this_realm W)))"
    if ok: "snd (banish_daemon e1 W w) = Inr r" for r
  proof -
    obtain st2 where "daemon_states (fst (banish_daemon e1 W w)) W = Some st2"
        "\<not> is_summoned (daemon st2)"
      using banish_ok_dormant [OF ok] by blast
    then show ?thesis by (rule banish_not_summoned)
  qed
  show ?thesis
    using a b c by auto
qed

lemma summon_fresh:
  "daemon_states (fst (summon e W new_registry)) W =
     Some ((new_state (initial_daemon W))
        \<lparr> daemon := (initial_daemon W)
             \<lparr> is_summoned := True, invocation_count := 0,
               daemon_metadata := Some (case daemon_metadata (initial_daemon W) of
                   None \<Rightarrow> [(''model'', PStr (mc_model (MODEL_MAPPINGS W)))]
                 | Some m \<Rightarrow> dict_set ''model'' (PStr (mc_model (MODEL_MAPPINGS W))) m) \<rparr>,
          summoned_at := Some (now e), mcp_registered := True \<rparr>)"
  by (cases W) (simp_all add: summon_def summon_try_def Let_def new_registry_def new_state_def
        register_daemon_def register_tool_def)

lemma banish_summoned_ok:
  assumes "daemon_states w nm = Some st" "is_summoned (daemon st)"
  shows "\<exists>r. snd (banish_daemon e nm w) = Inr r"
  using assms by (simp add: banish_daemon_def banish_try_def Let_def)

theorem lifecycle_precondition_errors_witness:
  "daemon_states new_registry CLAUDE = Some (new_state (initial_daemon CLAUDE))
   \<and> \<not> is_summoned (daemon (new_state (initial_daemon CLAUDE)))
   \<and> snd (invoke_daemon sample_env CLAUDE ''weigh the evidence'' None new_registry)
       = Inl (HTTPException 400 (Slumbers_in_the_void CLAUDE))
   \<and> snd (summon sample_env CLAUDE (fst (summon sample_env CLAUDE new_registry)))
       = Inl (HTTPException 400 (Already_walks_among_us CLAUDE))
   \<and> (\<exists>r. snd (banish_daemon sample_env CLAUDE (fst (summon sample_env CLAUDE new_registry))) = Inr r)
   \<and> snd (banish_daemon sample_env CLAUDE
            (fst (banish_daemon sample_env CLAUDE (fst (summon sample_env CLAUDE new_registry)))))
       = Inl (HTTPException 400 (Not_present_in_this_realm CLAUDE))"
proof -
  let ?w1 = "fst (summon sample_env CLAUDE new_registry)"
  have fresh: "daemon_states new_registry CLAUDE = Some (new_state (initial_daemon CLAUDE))"
    by (simp add: new_registry_def)
  have dormant: "\<not> is_summoned (daemon (new_state (initial_daemon CLAUDE)))"
    by (simp add: new_state_def)
  obtain st1 where st1: "daemon_states ?w1 CLAUDE = Some st1" "is_summoned (daemon st1)"
    using summon_summoned [OF fresh] by blast
  have ok: "\<exists>r. snd (banish_daemon sample_env CLAUDE ?w1) = Inr r"
    using st1 by (rule banish_summoned_ok)
  show ?thesis
    using fresh dormant ok
      lifecycle_precondition_errors [OF fresh, of sample_env sample_env "''weigh the evidence''" None]
      lifecycle_precondition_errors [OF st1(1), of sample_env sample_env "''weigh the evidence''" None]
    by simp
qed

text \<open>
  C7. For a summoned daemon registered with the MCP client, an exception of the backing
  capability does not leave \<open>invoke_daemon\<close>: the call returns a result with
  \<open>success = False\<close> that carries the error text, the invocation is counted and a record
  of it is appended to the daemon's history.
\<close>

theorem backend_exception_becomes_failed_result:
  assumes "daemon_states w W = Some st"
      and "is_summoned (daemon st)"
      and "mcp_registered st"
      and "mcp_tools w (daemon_value W) = Some cfg"
      and "backend e (daemon_value W) task ps cfg = Inl msg"
  shows "\<exists>w' res st'.
           invoke_daemon e W task ps w = (w', Inr res)
         \<and> \<not> ir_success res
         \<and> ir_result res = PDict [(''error'', PStr msg)]
         \<and> ir_invocation_number res = invocation_count (daemon st) + 1
         \<and> daemon_states w' W = Some st'
         \<and> invocation_count (daemon st') = invocation_count (daemon st) + 1
         \<and> invocation_history st' = invocation_history st @
              [\<lparr> inv_task = task, inv_timestamp = now e, inv_execution_time = elapsed e,
                 inv_success = False,
                 inv_result_summary = take 200 (render e (PDict [(''error'', PStr msg)])) \<rparr>]"
  using assms
  by (simp add: invoke_daemon_def invoke_try_def invoke_tool_def record_invocation_def Let_def)

theorem backend_exception_becomes_failed_result_witness:
  "\<exists>w' res st'.
     invoke_daemon sample_env CLAUDE ''weigh the evidence'' None
        (fst (summon sample_env CLAUDE new_registry)) = (w', Inr res)
     \<and> \<not> ir_success res
     \<and> ir_result res = PDict [(''error'', PStr ''connection reset'')]
     \<and> ir_invocation_number res = 1
     \<and> daemon_states w' CLAUDE = Some st'
     \<and> invocation_count (daemon st') = 1
     \<and> length (invocation_history st') = 1"
proof -
  let ?w1 = "fst (summon sample_env CLAUDE new_registry)"
  have tool: "\<exists>cfg. mcp_tools ?w1 (daemon_value CLAUDE) = Some cfg"
    by (simp add: summon_def summon_try_def Let_def new_registry_def new_state_def
          register_daemon_def register_tool_def)
  then obtain cfg where cfg: "mcp_tools ?w1 (daemon_value CLAUDE) = Some cfg" ..
  have raises: "backend sample_env (daemon_value CLAUDE) ''weigh the evidence'' None cfg
                  = Inl ''connection reset''"
    by (simp add: sample_env_def)
  show ?thesis
    using backend_exception_becomes_failed_result
            [OF summon_fresh [of sample_env CLAUDE] _ _ cfg raises]
    by (auto simp add: new_state_def)
qed

section \<open>Text\<close>

text \<open>
  \<open>str.lower\<close>, \<open>str.isspace\<close> (also the class \<open>\s\<close> and what \<open>strip\<close> removes),
  \<open>str.isdigit\<close> and the class \<open>\w\<close>, on ASCII text.
\<close>

definition lower_char :: "char \<Rightarrow> char" where
  "lower_char c =
     (case map_of (zip ''ABCDEFGHIJKLMNOPQRSTUVWXYZ'' ''abcdefghijklmnopqrstuvwxyz'') c of
        None \<Rightarrow> c | Some l \<Rightarrow> l)"

definition is_space :: "char \<Rightarrow> bool" where
  "is_space c = (let n = (of_char c :: nat) in (9 \<le> n \<and> n \<le> 13) \<or> (28 \<le> n \<and> n \<le> 32))"

definition is_digit :: "char \<Rightarrow> bool" where
  "is_digit c = (c \<in> set ''0123456789'')"

definition is_word :: "char \<Rightarrow> bool" where
  "is_word c = (c \<in> set ''abcdefghijklmnopqrstuvwxyzABCDEFGHIJKLMNOPQRSTUVWXYZ0123456789_'')"

section \<open>Regular expressions\<close>

text \<open>
  The patterns of the source are regular expressions of Python's \<open>re\<close>. \<open>rmatch\<close> is the
  backtracking matcher: from a position (the rest of the text, with the groups captured
  so far) it lists the positions after a match, in the order in which \<open>re\<close> tries them
  (the first alternative first, the longest repetition first), so the head of the list is
  the match \<open>re\<close> returns. The flag is \<open>re.IGNORECASE\<close>; \<open>n\<close> is the length of the whole
  text, which tells \<open>^\<close> where the text starts.
\<close>

datatype regex =
    Lit char
  | Cls "char \<Rightarrow> bool"
  | Seq regex regex
  | Alt regex regex
  | Star regex
  | Grp nat regex
  | Bol
  | Eps

fun rmatch :: "bool \<Rightarrow> nat \<Rightarrow> regex \<Rightarrow> string \<times> (nat \<times> string) list \<Rightarrow> (string \<times> (nat \<times> string) list) list" where
  "rmatch ic n (Lit c) (s, g) =
     (case s of
        [] \<Rightarrow> []
      | x # xs \<Rightarrow> if (if ic then lower_char x = lower_char c else x = c) then [(xs, g)] else [])"
| "rmatch ic n (Cls P) (s, g) = (case s of [] \<Rightarrow> [] | x # xs \<Rightarrow> if P x then [(xs, g)] else [])"
| "rmatch ic n (Seq r1 r2) (s, g) = concat (map (rmatch ic n r2) (rmatch ic n r1 (s, g)))"
| "rmatch ic n (Alt r1 r2) (s, g) = rmatch ic n r1 (s, g) @ rmatch ic n r2 (s, g)"
| "rmatch ic n (Star r) (s, g) =
     concat (map (\<lambda>sg. if length (fst sg) < length s then rmatch ic n (Star r) sg else [])
                 (rmatch ic n r (s, g))) @ [(s, g)]"
| "rmatch ic n (Grp k r) (s, g) =
     map (\<lambda>sg. (fst sg, (k, take (length s - length (fst sg)) s) # snd sg)) (rmatch ic n r (s, g))"
| "rmatch ic n Bol (s, g) = (if length s = n then [(s, g)] else [])"
| "rmatch ic n Eps (s, g) = [(s, g)]"


definition Plus :: "regex \<Rightarrow> regex" where
  "Plus r = Seq r (Star r)"

definition Opt :: "regex \<Rightarrow> regex" where
  "Opt r = Alt r Eps"

fun lits :: "string \<Rightarrow> regex" where
  "lits [] = Eps"
| "lits (c # cs) = Seq (Lit c) (lits cs)"

fun seqs :: "regex list \<Rightarrow> regex" where
  "seqs [] = Eps"
| "seqs (r # rs) = Seq r (seqs rs)"

text \<open>
  \<open>pattern.search\<close>: the first position from which the pattern matches, and there the first
  match. The match object keeps the text before the match, the matched text (group 0),
  the text after it and the groups.
\<close>

record re_match =
  mt_before :: string
  mt_text :: string
  mt_after :: string
  mt_groups :: "(nat \<times> string) list"

fun search_from :: "bool \<Rightarrow> nat \<Rightarrow> regex \<Rightarrow> string \<Rightarrow> string \<Rightarrow> re_match option" where
  "search_from ic n r acc [] =
     (case rmatch ic n r ([], []) of
        [] \<Rightarrow> None
      | sg # _ \<Rightarrow> Some \<lparr> mt_before = acc, mt_text = [], mt_after = [], mt_groups = snd sg \<rparr>)"
| "search_from ic n r acc (x # xs) =
     (case rmatch ic n r (x # xs, []) of
        [] \<Rightarrow> search_from ic n r (acc @ [x]) xs
      | sg # _ \<Rightarrow> Some \<lparr> mt_before = acc,
                         mt_text = take (length (x # xs) - length (fst sg)) (x # xs),
                         mt_after = fst sg, mt_groups = snd sg \<rparr>)"

definition search :: "bool \<Rightarrow> regex \<Rightarrow> string \<Rightarrow> re_match option" where
  "search ic r text = search_from ic (length text) r [] text"

definition strip :: "string \<Rightarrow> string" where
  "strip s = rev (dropWhile is_space (rev (dropWhile is_space s)))"

section \<open>app/services/spell\_parser.py\<close>

datatype SpellAction = ACT_SUMMON | ACT_INVOKE | ACT_BANISH | ACT_QUERY

record SpellPattern =
  sp_pattern :: regex
  sp_action :: SpellAction
  sp_groups :: "(string \<times> nat) list"
  sp_priority :: int

text \<open>
  The pieces the patterns share: \<open>\s+\<close>, \<open>\s*\<close>, \<open>\w+\<close>, \<open>.+\<close> and \<open>(?:the\s+)?\<close>.
\<close>

definition ws1 :: regex where "ws1 = Plus (Cls is_space)"
definition ws0 :: regex where "ws0 = Star (Cls is_space)"
definition word1 :: regex where "word1 = Plus (Cls is_word)"
definition any1 :: regex where "any1 = Plus (Cls (\<lambda>c. c \<noteq> CHR 0x0A))"
definition opt_the :: regex where "opt_the = Opt (Seq (lits ''the'') ws1)"

definition all_patterns :: "SpellPattern list" where
  "all_patterns =
   [\<lparr> sp_pattern = seqs [lits ''invoke'', ws1, Grp 1 word1, ws1, lits ''to'', ws1, Grp 2 any1],
      sp_action = ACT_INVOKE, sp_groups = [(''daemon'', 1), (''task'', 2)], sp_priority = 100 \<rparr>,
    \<lparr> sp_pattern = seqs [lits ''ask'', ws1, Grp 1 word1, ws1, lits ''to'', ws1, Grp 2 any1],
      sp_action = ACT_INVOKE, sp_groups = [(''daemon'', 1), (''task'', 2)], sp_priority = 95 \<rparr>,
    \<lparr> sp_pattern = seqs [lits ''tell'', ws1, Grp 1 word1, ws1, lits ''to'', ws1, Grp 2 any1],
      sp_action = ACT_INVOKE, sp_groups = [(''daemon'', 1), (''task'', 2)], sp_priority = 95 \<rparr>,
    \<lparr> sp_pattern = seqs [lits ''command'', ws1, Grp 1 word1, lits '':'', ws0, Grp 2 any1],
      sp_action = ACT_INVOKE, sp_groups = [(''daemon'', 1), (''task'', 2)], sp_priority = 90 \<rparr>,
    \<lparr> sp_pattern = seqs [Bol, Grp 1 word1, lits '','', ws1, Grp 2 any1],
      sp_action = ACT_INVOKE, sp_groups = [(''daemon'', 1), (''task'', 2)], sp_priority = 50 \<rparr>,
    \<lparr> sp_pattern = seqs [lits ''invoke'', ws1, Grp 1 word1, ws1, lits ''for'', ws1, Grp 2 any1],
      sp_action = ACT_INVOKE, sp_groups = [(''daemon'', 1), (''task'', 2)], sp_priority = 85 \<rparr>,
    \<lparr> sp_pattern = seqs [lits ''summon'', ws1, opt_the, Grp 1 word1, Opt (Seq ws1 (lits ''daemon''))],
      sp_action = ACT_SUMMON, sp_groups = [(''daemon'', 1)], sp_priority = 80 \<rparr>,
    \<lparr> sp_pattern = seqs [lits ''call'', ws1, lits ''forth'', ws1, opt_the, Grp 1 word1],
      sp_action = ACT_SUMMON, sp_groups = [(''daemon'', 1)], sp_priority = 75 \<rparr>,
    \<lparr> sp_pattern = seqs [lits ''materialize'', ws1, opt_the, Grp 1 word1],
      sp_action = ACT_SUMMON, sp_groups = [(''daemon'', 1)], sp_priority = 75 \<rparr>,
    \<lparr> sp_pattern = seqs [lits ''awaken'', ws1, opt_the, Grp 1 word1],
      sp_action = ACT_SUMMON, sp_groups = [(''daemon'', 1)], sp_priority = 75 \<rparr>,
    \<lparr> sp_pattern = seqs [lits ''bring'', ws1, opt_the, Grp 1 word1, ws1, lits ''to'', ws1, lits ''life''],
      sp_action = ACT_SUMMON, sp_groups = [(''daemon'', 1)], sp_priority = 70 \<rparr>,
    \<lparr> sp_pattern = seqs [lits ''banish'', ws1, opt_the, Grp 1 word1, Opt (Seq ws1 (lits ''daemon''))],
      sp_action = ACT_BANISH, sp_groups = [(''daemon'', 1)], sp_priority = 80 \<rparr>,
    \<lparr> sp_pattern = seqs [lits ''dismiss'', ws1, opt_the, Grp 1 word1],
      sp_action = ACT_BANISH, sp_groups = [(''daemon'', 1)], sp_priority = 75 \<rparr>,
    \<lparr> sp_pattern = seqs [lits ''send'', ws1, opt_the, Grp 1 word1, ws1, lits ''back''],
      sp_action = ACT_BANISH, sp_groups = [(''daemon'', 1)], sp_priority = 75 \<rparr>,
    \<lparr> sp_pattern = seqs [lits ''release'', ws1, opt_the, Grp 1 word1],
      sp_action = ACT_BANISH, sp_groups = [(''daemon'', 1)], sp_priority = 70 \<rparr>,
    \<lparr> sp_pattern = seqs [Bol, lits ''show'', ws1, Opt (Seq (lits ''me'') ws1),
                         Opt (Seq (lits ''all'') ws1), opt_the, lits ''daemon'', Opt (Lit CHR ''s'')],
      sp_action = ACT_QUERY, sp_groups = [], sp_priority = 95 \<rparr>,
    \<lparr> sp_pattern = seqs [Bol, lits ''list'', ws1, Opt (Seq (lits ''all'') ws1), opt_the,
                         lits ''daemon'', Opt (Lit CHR ''s'')],
      sp_action = ACT_QUERY, sp_groups = [], sp_priority = 95 \<rparr>,
    \<lparr> sp_pattern = seqs [Bol, lits ''what'', ws1, lits ''daemon'', Opt (Lit CHR ''s''), ws1,
                         Opt (Seq (lits ''are'') ws1), lits ''active''],
      sp_action = ACT_QUERY, sp_groups = [], sp_priority = 90 \<rparr>,
    \<lparr> sp_pattern = seqs [lits ''status'', ws1, lits ''of'', ws1, opt_the, Grp 1 any1],
      sp_action = ACT_QUERY, sp_groups = [(''daemon'', 1)], sp_priority = 65 \<rparr>,
    \<lparr> sp_pattern = seqs [lits ''check'', ws1, Opt (Seq (lits ''on'') ws1), opt_the, Grp 1 any1],
      sp_action = ACT_QUERY, sp_groups = [(''daemon'', 1)], sp_priority = 60 \<rparr>]"

text \<open>
  \<open>patterns.sort(key=priority, reverse=True)\<close> is stable: patterns of equal priority
  keep the order in which they were added.
\<close>

definition patterns :: "SpellPattern list" where
  "patterns = sort_key (\<lambda>p. - sp_priority p) all_patterns"

definition pattern_match :: "SpellPattern \<Rightarrow> string \<Rightarrow> (string \<times> string) list option" where
  "pattern_match p text =
     (case search True (sp_pattern p) text of
        None \<Rightarrow> None
      | Some mo \<Rightarrow>
          Some (concat (map (\<lambda>fg. case map_of (mt_groups mo) (snd fg) of
                                     None \<Rightarrow> []
                                   | Some v \<Rightarrow> if v \<noteq> [] then [(fst fg, strip v)] else [])
                            (sp_groups p))))"

text \<open>
  \<open>finditer\<close>: the matches from left to right, each search starting where the last match
  ended (one character further after an empty match).
\<close>

function finditer_from :: "bool \<Rightarrow> nat \<Rightarrow> regex \<Rightarrow> string \<Rightarrow> re_match list" where
  "finditer_from ic n r s =
     (case search_from ic n r [] s of
        None \<Rightarrow> []
      | Some mo \<Rightarrow>
          mo # (if length (mt_after mo) < length s then finditer_from ic n r (mt_after mo)
                else (case mt_after mo of [] \<Rightarrow> [] | x # xs \<Rightarrow>
                        if length xs < length s then finditer_from ic n r xs else [])))"
  by pat_completeness auto
termination
  by (relation "measure (\<lambda>(ic, n, r, s). length s)") auto

definition finditer :: "bool \<Rightarrow> regex \<Rightarrow> string \<Rightarrow> re_match list" where
  "finditer ic r text = finditer_from ic (length text) r text"

text \<open>\<open>re.sub(pattern, repl, text)\<close> for a replacement text without group references.\<close>

definition re_sub :: "bool \<Rightarrow> regex \<Rightarrow> string \<Rightarrow> string \<Rightarrow> string" where
  "re_sub ic r repl text =
     (case finditer ic r text of
        [] \<Rightarrow> text
      | mo # mos \<Rightarrow>
          concat (map (\<lambda>m. mt_before m @ repl) (mo # mos)) @ mt_after (last (mo # mos)))"

text \<open>\<open>s.replace(old, new)\<close> for a non-empty \<open>old\<close>: every occurrence, from the left.\<close>

function replace_all :: "string \<Rightarrow> string \<Rightarrow> string \<Rightarrow> string" where
  "replace_all old new [] = []"
| "replace_all old new (c # cs) =
     (if old \<noteq> [] \<and> prefix old (c # cs)
      then new @ replace_all old new (drop (length old) (c # cs))
      else c # replace_all old new cs)"
  by pat_completeness auto
termination
  by (relation "measure (\<lambda>(old, new, s). length s)") (auto simp: Suc_diff_le prefix_length_le Suc_le_eq)

definition strip_chars :: "string \<Rightarrow> string \<Rightarrow> string" where
  "strip_chars cs s = rev (dropWhile (\<lambda>c. c \<in> set cs) (rev (dropWhile (\<lambda>c. c \<in> set cs) s)))"

definition DAEMON_ALIASES :: "(string \<times> string list) list" where
  "DAEMON_ALIASES =
     [(''claude'', [''claude'', ''logic keeper'', ''reasoner'', ''analyzer'']),
      (''gemini'', [''gemini'', ''creative'', ''innovator'', ''dreamer'']),
      (''liquidmetal'', [''liquidmetal'', ''liquid metal'', ''transformer'', ''shapeshifter''])]"

definition normalize_daemon_name :: "string \<Rightarrow> string" where
  "normalize_daemon_name raw_name =
     (let name_lower = strip (map lower_char raw_name)
      in case find (\<lambda>ca. name_lower \<in> set (snd ca)) DAEMON_ALIASES of
           Some ca \<Rightarrow> fst ca
         | None \<Rightarrow>
             (case find (\<lambda>ca. list_ex (\<lambda>alias. sublist alias name_lower \<or> sublist name_lower alias)
                                      (snd ca)) DAEMON_ALIASES of
                Some ca \<Rightarrow> fst ca
              | None \<Rightarrow> name_lower))"

text \<open>
  \<open>param_pattern\<close>:
  \<^verbatim>\<open>with\s+(\w+)\s*=\s*(?:"([^"]*)"|'([^']*)'|(\S+))\<close>, with \<open>re.IGNORECASE\<close>.
\<close>

definition param_pattern :: regex where
  "param_pattern =
     seqs [lits ''with'', ws1, Grp 1 word1, ws0, lits ''='', ws0,
           Alt (seqs [Lit (CHR 0x22), Grp 2 (Star (Cls (\<lambda>c. c \<noteq> CHR 0x22))), Lit (CHR 0x22)])
          (Alt (seqs [Lit (CHR 0x27), Grp 3 (Star (Cls (\<lambda>c. c \<noteq> CHR 0x27))), Lit (CHR 0x27)])
               (Grp 4 (Plus (Cls (\<lambda>c. \<not> is_space c)))))]"

text \<open>
  The texts \<open>float\<close> accepts: surrounding whitespace, a sign, then \<open>inf\<close>, \<open>infinity\<close>,
  \<open>nan\<close> or a decimal number with optional fraction and exponent; digits may be
  separated by single underscores.
\<close>

definition digitpart :: regex where
  "digitpart = Seq (Cls is_digit) (Star (Seq (Opt (Lit CHR ''_'')) (Cls is_digit)))"

definition float_pattern :: regex where
  "float_pattern =
     seqs [Opt (Alt (Lit CHR ''+'') (Lit CHR ''-'')),
           Alt (lits ''infinity'')
          (Alt (lits ''inf'')
          (Alt (lits ''nan'')
               (seqs [Alt (seqs [digitpart, Opt (Seq (Lit CHR ''.'') (Opt digitpart))])
                          (Seq (Lit CHR ''.'') digitpart),
                      Opt (seqs [Lit CHR ''e'', Opt (Alt (Lit CHR ''+'') (Lit CHR ''-'')), digitpart])])))]"

definition fullmatch :: "bool \<Rightarrow> regex \<Rightarrow> string \<Rightarrow> bool" where
  "fullmatch ic r s = list_ex (\<lambda>sg. fst sg = []) (rmatch ic (length s) r (s, []))"

definition float_accepts :: "string \<Rightarrow> bool" where
  "float_accepts s = fullmatch True float_pattern (strip s)"

definition isdigit :: "string \<Rightarrow> bool" where
  "isdigit s = (s \<noteq> [] \<and> list_all is_digit s)"

definition digit_value :: "char \<Rightarrow> int" where
  "digit_value c = int (of_char c) - 48"

definition int_of :: "string \<Rightarrow> int" where
  "int_of s = foldl (\<lambda>acc c. 10 * acc + digit_value c) 0 s"

definition coerce :: "string \<Rightarrow> py" where
  "coerce param_value_str =
     (if map lower_char param_value_str \<in> {''true'', ''false''}
      then PBool (map lower_char param_value_str = ''true'')
      else if isdigit param_value_str then PInt (int_of param_value_str)
      else if float_accepts param_value_str then PFloatOf param_value_str
      else PStr param_value_str)"

text \<open>
  One turn of the loop of \<open>extract_parameters\<close> over the matches: the value is the first
  of the groups 2, 3 and 4 that took part in the match; it is coerced and stored, and the
  matched text is replaced by nothing in the task as cleaned so far, which is then
  stripped.
\<close>

definition param_step :: "string \<times> (string \<times> py) list \<Rightarrow> re_match \<Rightarrow> string \<times> (string \<times> py) list" where
  "param_step acc mo =
     (case map_of (mt_groups mo) 1 of
        None \<Rightarrow> acc
      | Some param_name \<Rightarrow>
          (case List.map_filter (map_of (mt_groups mo)) [2, 3, 4] of
             [] \<Rightarrow> acc
           | v # _ \<Rightarrow> (strip (replace_all (mt_text mo) [] (fst acc)),
                       dict_set param_name (coerce v) (snd acc))))"

definition extract_parameters :: "string \<Rightarrow> string \<times> (string \<times> py) list" where
  "extract_parameters task_description =
     (let acc = foldl param_step (task_description, []) (finditer True param_pattern task_description)
      in (strip_chars '' ,;'' (re_sub False ws1 '' '' (fst acc)), snd acc))"

datatype parse_error = ParseError string

record ParsedSpell =
  ps_action :: SpellAction
  ps_daemon :: "string option"
  ps_task :: "string option"
  ps_parameters :: "(string \<times> py) list option"
  ps_confidence :: real
  ps_raw_input :: string

fun action_value :: "SpellAction \<Rightarrow> string" where
  "action_value ACT_SUMMON = ''summon''"
| "action_value ACT_INVOKE = ''invoke''"
| "action_value ACT_BANISH = ''banish''"
| "action_value ACT_QUERY = ''query''"

definition spell_to_dict :: "ParsedSpell \<Rightarrow> (string \<times> py) list" where
  "spell_to_dict ps =
     [(''action'', PStr (action_value (ps_action ps))),
      (''daemon'', (case ps_daemon ps of None \<Rightarrow> PNone | Some d \<Rightarrow> PStr d)),
      (''confidence'', PFloat (ps_confidence ps)),
      (''raw_input'', PStr (ps_raw_input ps))]
     @ (case ps_task ps of None \<Rightarrow> [] | Some t \<Rightarrow> if t \<noteq> [] then [(''task'', PStr t)] else [])
     @ (case ps_parameters ps of
          None \<Rightarrow> []
        | Some kvs \<Rightarrow> if kvs \<noteq> [] then [(''parameters'', PDict kvs)] else [])"

text \<open>The loop of \<open>parse\<close> over the sorted patterns: the first pattern that matches.\<close>

fun first_match :: "SpellPattern list \<Rightarrow> string \<Rightarrow> (SpellPattern \<times> (string \<times> string) list) option" where
  "first_match [] text = None"
| "first_match (p # ps) text =
     (case pattern_match p text of
        None \<Rightarrow> first_match ps text
      | Some matched_fields \<Rightarrow> Some (p, matched_fields))"

definition parse :: "string \<Rightarrow> parse_error + ParsedSpell" where
  "parse spell_text =
     (if spell_text = [] \<or> strip spell_text = []
      then Inl (ParseError ''Empty spell text provided.'')
      else
        (let cleaned_spell_text = strip spell_text
         in case first_match patterns cleaned_spell_text of
              None \<Rightarrow> Inl (ParseError (''Unable to parse spell: '' @ cleaned_spell_text))
            | Some pm \<Rightarrow>
                (let extracted = map_option extract_parameters (map_of (snd pm) ''task'')
                 in Inr \<lparr> ps_action = sp_action (fst pm),
                          ps_daemon = map_option normalize_daemon_name (map_of (snd pm) ''daemon''),
                          ps_task = map_option fst extracted,
                          ps_parameters = map_option snd extracted,
                          ps_confidence = min 1 (real_of_int (sp_priority (fst pm)) / 100),
                          ps_raw_input = cleaned_spell_text \<rparr>)))"

section \<open>ArcaneOS/core/safety.py\<close>

record SafetySettings =
  allow_shell :: bool
  allow_net :: bool

record StyleSettings =
  fantasy :: bool
  voice :: string

text \<open>
  \<open>ArchonDirective\<close>, and the dictionary \<open>directive.dict()\<close> makes of it: the declared
  fields, with the defaults filled in.
\<close>

record ArchonDirective =
  dir_intent :: string
  dir_daemon :: string
  dir_task :: string
  safety :: SafetySettings
  style :: StyleSettings
  dir_parameters :: "(string \<times> py) list option"
  dir_plan :: "string list"

text \<open>
  \<open>ArchonDirective.parse_obj\<close> on a JSON object, field by field as the class declares
  them: the literals, the stripped task of at most 140 characters, the nested settings
  with their defaults, the optional parameters, the non-empty plan of non-empty stripped
  texts. A value of another type than the declared one is refused (the library's
  coercions between types are not modelled); keys that are not declared are ignored.
\<close>

definition parse_bool_field :: "bool \<Rightarrow> py option \<Rightarrow> bool option" where
  "parse_bool_field dflt v =
     (case v of None \<Rightarrow> Some dflt | Some (PBool b) \<Rightarrow> Some b | Some other \<Rightarrow> None)"

definition parse_literal :: "string list \<Rightarrow> py option \<Rightarrow> string option" where
  "parse_literal allowed v =
     (case v of Some (PStr s) \<Rightarrow> if s \<in> set allowed then Some s else None | other \<Rightarrow> None)"

definition parse_safety :: "py option \<Rightarrow> SafetySettings option" where
  "parse_safety v =
     (case v of
        Some (PDict kvs) \<Rightarrow>
          (case (parse_bool_field False (map_of kvs ''allow_shell''),
                 parse_bool_field False (map_of kvs ''allow_net'')) of
             (Some sh, Some nt) \<Rightarrow> Some \<lparr> allow_shell = sh, allow_net = nt \<rparr>
           | other \<Rightarrow> None)
      | other \<Rightarrow> None)"

definition parse_style :: "py option \<Rightarrow> StyleSettings option" where
  "parse_style v =
     (case v of
        Some (PDict kvs) \<Rightarrow>
          (case (parse_bool_field True (map_of kvs ''fantasy''),
                 (case map_of kvs ''voice'' of
                    None \<Rightarrow> Some ''archon''
                  | Some w \<Rightarrow> parse_literal [''archon'', ''claude'', ''gemini''] (Some w))) of
             (Some f, Some vc) \<Rightarrow> Some \<lparr> fantasy = f, voice = vc \<rparr>
           | other \<Rightarrow> None)
      | other \<Rightarrow> None)"

definition parse_plan :: "py option \<Rightarrow> string list option" where
  "parse_plan v =
     (case v of
        Some (PList steps) \<Rightarrow>
          if steps \<noteq> [] \<and> list_all (\<lambda>x. case x of PStr s \<Rightarrow> strip s \<noteq> [] | other \<Rightarrow> False) steps
          then Some (List.map_filter (\<lambda>x. case x of PStr s \<Rightarrow> Some (strip s) | other \<Rightarrow> None) steps)
          else None
      | other \<Rightarrow> None)"

definition parse_obj :: "(string \<times> py) list \<Rightarrow> ArchonDirective option" where
  "parse_obj payload =
     (case (parse_literal [''summon'', ''invoke'', ''banish'', ''reveal''] (map_of payload ''intent''),
            parse_literal [''claude'', ''gemini'', ''liquidmetal'', ''none''] (map_of payload ''daemon''),
            (case map_of payload ''task'' of
               Some (PStr s) \<Rightarrow> if length (strip s) \<le> 140 then Some (strip s) else None
             | other \<Rightarrow> None),
            parse_safety (map_of payload ''safety''),
            parse_style (map_of payload ''style''),
            (case map_of payload ''parameters'' of
               None \<Rightarrow> Some None
             | Some PNone \<Rightarrow> Some None
             | Some (PDict kvs) \<Rightarrow> Some (Some kvs)
             | Some other \<Rightarrow> None),
            parse_plan (map_of payload ''plan'')) of
        (Some i, Some d, Some t, Some sf, Some sty, Some ps, Some pl) \<Rightarrow>
          Some \<lparr> dir_intent = i, dir_daemon = d, dir_task = t, safety = sf, style = sty,
                 dir_parameters = ps, dir_plan = pl \<rparr>
      | other \<Rightarrow> None)"

text \<open>The audit sink: one line per rejection, appended to the grimoire file.\<close>

record 'p rejection =
  rej_event :: string
  rej_reason :: string
  rej_payload :: 'p

definition log_rejection :: "string \<Rightarrow> 'p \<Rightarrow> 'p rejection list \<Rightarrow> 'p rejection list" where
  "log_rejection reason payload audit =
     audit @ [\<lparr> rej_event = ''REJECTED_PAYLOAD'', rej_reason = reason, rej_payload = payload \<rparr>]"

text \<open>
  \<open>REDACT_PATTERN\<close>: \<^verbatim>\<open>([A-Za-z]:\\[^\s]+|/[^\s]+)\<close>, without flags.
\<close>

definition is_letter :: "char \<Rightarrow> bool" where
  "is_letter c = (c \<in> set ''abcdefghijklmnopqrstuvwxyzABCDEFGHIJKLMNOPQRSTUVWXYZ'')"

definition REDACT_PATTERN :: regex where
  "REDACT_PATTERN =
     Grp 1 (Alt (seqs [Cls is_letter, Lit CHR '':'', Lit (CHR 0x5C), Plus (Cls (\<lambda>c. \<not> is_space c))])
                (Seq (Lit CHR ''/'') (Plus (Cls (\<lambda>c. \<not> is_space c)))))"

definition redact_paths :: "string \<Rightarrow> string" where
  "redact_paths text = re_sub False REDACT_PATTERN ''[path-redacted]'' text"

text \<open>
  \<open>validate_archon_payload\<close>, with the audit log it appends to. The validation of the
  payload against the class is the library's; it is the first argument, \<open>None\<close> standing
  for a \<open>ValidationError\<close>, and \<open>parse_obj\<close> above is the instance for JSON objects.
\<close>

definition validate_archon_payload ::
  "('p \<Rightarrow> ArchonDirective option) \<Rightarrow> 'p \<Rightarrow> bool \<Rightarrow> 'p rejection list
   \<Rightarrow> 'p rejection list \<times> (error + ArchonDirective)" where
  "validate_archon_payload validate payload strict audit =
     (case validate payload of
        None \<Rightarrow> (log_rejection ''schema_validation_error'' payload audit,
                 Inl (ValueError ''Invalid Archon directive''))
      | Some directive \<Rightarrow>
          if \<not> allow_shell (safety directive)
             \<and> list_ex (\<lambda>text. sublist ''shell'' (map lower_char text))
                        (dir_task directive # dir_plan directive)
          then (log_rejection ''shell_command_disallowed'' payload audit,
                Inl (ValueError ''Shell execution requested but disallowed''))
          else if strict
          then (audit, Inr (directive\<lparr>dir_plan := map redact_paths (dir_plan directive)\<rparr>))
          else (audit, Inr (directive\<lparr>style := (style directive)\<lparr>fantasy := False\<rparr>\<rparr>)))"

section \<open>ArcaneOS/core/archon\_router.py\<close>

definition SIMPLE_LATENCY_BUDGET :: real where
  "SIMPLE_LATENCY_BUDGET = 6 / 10"

definition CODEGEN_LATENCY_BUDGET :: real where
  "CODEGEN_LATENCY_BUDGET = 25 / 10"

definition archon_role_name :: string where
  "archon_role_name = ''The Archon''"

definition archon_base_narration :: string where
  "archon_base_narration =
     ''The Archon contemplates your words, divining the optimal course through the code-ether.''"

record ArchonDecision =
  intent :: string
  target_daemon :: "DaemonType option"
  decision_task :: "string option"
  decision_parameters :: "(string \<times> py) list option"
  plan :: "string list"
  narration :: string
  reasoning :: string
  confidence :: "real option"
  fallback_used :: bool
  raw :: "(string \<times> py) list"
  parsed_summary :: "(string \<times> py) list"

text \<open>\<open>DaemonType(value)\<close>: the member with this value, \<open>None\<close> for the \<open>ValueError\<close>.\<close>

definition daemon_of_value :: "string \<Rightarrow> DaemonType option" where
  "daemon_of_value v =
     (if v = ''claude'' then Some CLAUDE
      else if v = ''gemini'' then Some GEMINI
      else if v = ''liquidmetal'' then Some LIQUIDMETAL
      else None)"

definition opt_str :: "string option \<Rightarrow> py" where
  "opt_str v = (case v of None \<Rightarrow> PNone | Some s \<Rightarrow> PStr s)"

definition opt_dict :: "(string \<times> py) list option \<Rightarrow> py" where
  "opt_dict v = (case v of None \<Rightarrow> PNone | Some kvs \<Rightarrow> PDict kvs)"

definition directive_dict :: "ArchonDirective \<Rightarrow> (string \<times> py) list" where
  "directive_dict d =
     [(''intent'', PStr (dir_intent d)),
      (''daemon'', PStr (dir_daemon d)),
      (''task'', PStr (dir_task d)),
      (''safety'', PDict [(''allow_shell'', PBool (allow_shell (safety d))),
                          (''allow_net'', PBool (allow_net (safety d)))]),
      (''style'', PDict [(''fantasy'', PBool (fantasy (style d))),
                         (''voice'', PStr (voice (style d)))]),
      (''parameters'', opt_dict (dir_parameters d)),
      (''plan'', PList (map PStr (dir_plan d)))]"

text \<open>
  \<open>_decision_from_payload\<close> on the cleaned directive. The cleaned dictionary has the
  declared keys only, so \<open>reasoning\<close> reads its default, the empty text, and
  \<open>confidence\<close> is \<open>None\<close>; \<open>fallback_used\<close> keeps the default of the dataclass.
\<close>

definition decision_from_payload :: "string \<Rightarrow> ArchonDirective \<Rightarrow> ArchonDecision" where
  "decision_from_payload spell_text payload =
     \<lparr> intent = map lower_char (dir_intent payload),
       target_daemon = daemon_of_value (dir_daemon payload),
       decision_task = Some (dir_task payload),
       decision_parameters = dir_parameters payload,
       plan = dir_plan payload,
       narration = (if fantasy (style payload) then archon_base_narration else []),
       reasoning = [],
       confidence = None,
       fallback_used = False,
       raw = directive_dict payload,
       parsed_summary =
         [(''action'', PStr (map lower_char (dir_intent payload))),
          (''daemon'', opt_str (map_option daemon_value (daemon_of_value (dir_daemon payload)))),
          (''task'', PStr (dir_task payload)),
          (''parameters'', opt_dict (dir_parameters payload)),
          (''raw_input'', PStr spell_text)] \<rparr>"

text \<open>
  \<open>_apply_latency_policy\<close>. The plan of a decision built from a payload is the list
  stored under \<open>plan\<close> in \<open>raw\<close>, so the inserted step shows there too.
\<close>

definition is_codegen :: "ArchonDecision \<Rightarrow> bool" where
  "is_codegen decision = (intent decision = ''invoke'' \<and> target_daemon decision = Some CLAUDE)"

definition reroute :: "string \<Rightarrow> ArchonDecision \<Rightarrow> ArchonDecision" where
  "reroute step decision =
     decision\<lparr> fallback_used := True,
               plan := step # plan decision,
               raw := dict_set ''daemon'' (PStr ''liquidmetal'')
                        (map (\<lambda>kv. if fst kv = ''plan''
                                    then (''plan'', PList (map PStr (step # plan decision)))
                                    else kv)
                             (raw decision)),
               target_daemon := Some LIQUIDMETAL \<rparr>"

definition apply_latency_policy :: "ArchonDecision \<Rightarrow> real \<Rightarrow> ArchonDecision" where
  "apply_latency_policy decision latency =
     (if \<not> is_codegen decision \<and> latency > SIMPLE_LATENCY_BUDGET
      then reroute ''Latency exceeded simple budget; rerouting to LiquidMetal.'' decision
      else if is_codegen decision \<and> latency > CODEGEN_LATENCY_BUDGET
      then reroute ''Codegen latency too high; delegating to LiquidMetal summary.'' decision
      else decision)"

text \<open>
  \<open>_decision_from_spell_parser\<close>. A parameter of the parser is never a list, so the plan
  is empty unless a list is stored under \<open>plan\<close>.
\<close>

definition decision_from_spell_parser :: "bool \<Rightarrow> string \<Rightarrow> error + ArchonDecision" where
  "decision_from_spell_parser fantasy_on spell_text =
     (case parse spell_text of
        Inl (ParseError msg) \<Rightarrow> Inl (HTTPException 400 (Unparseable msg))
      | Inr parsed \<Rightarrow>
          Inr \<lparr> intent = action_value (ps_action parsed),
                target_daemon = (case ps_daemon parsed of
                                   None \<Rightarrow> None
                                 | Some d \<Rightarrow> if d \<noteq> [] then daemon_of_value d else None),
                decision_task = ps_task parsed,
                decision_parameters = Some (case ps_parameters parsed of None \<Rightarrow> [] | Some kvs \<Rightarrow> kvs),
                plan = (case ps_parameters parsed of
                          None \<Rightarrow> []
                        | Some kvs \<Rightarrow>
                            (case map_of kvs ''plan'' of
                               Some (PList steps) \<Rightarrow>
                                 List.map_filter (\<lambda>x. case x of PStr s \<Rightarrow> Some s | other \<Rightarrow> None) steps
                             | other \<Rightarrow> [])),
                narration = (if fantasy_on
                             then archon_role_name
                                  @ '' contemplates your words, relying on ancient heuristics.''
                             else ''parser_fallback''),
                reasoning = ''Fallback spell parser engaged.'',
                confidence = Some (6 / 10),
                fallback_used = True,
                raw = spell_to_dict parsed,
                parsed_summary = dict_set ''raw_input'' (PStr spell_text) (spell_to_dict parsed) \<rparr>)"

text \<open>
  \<open>_generate_decision\<close>. \<open>planner_ready\<close> is \<open>settings.archon_enabled and
  self._tool_registered\<close>; \<open>request\<close> is \<open>_request_archon_directive\<close>, the call of the
  external planner, which returns a payload with the time the call took or raises. Any
  exception on the planner's path leads to the spell parser. The route event and the
  audio cue of the planner's path do not change the decision and are left out.
\<close>

definition generate_decision ::
  "bool \<Rightarrow> (string \<Rightarrow> error + 'p \<times> real) \<Rightarrow> ('p \<Rightarrow> ArchonDirective option) \<Rightarrow> bool \<Rightarrow> string
   \<Rightarrow> 'p rejection list \<Rightarrow> 'p rejection list \<times> (error + ArchonDecision)" where
  "generate_decision planner_ready request validate fantasy_on spell_text audit =
     (if planner_ready
      then (case request spell_text of
              Inl exc \<Rightarrow> (audit, decision_from_spell_parser fantasy_on spell_text)
            | Inr pl \<Rightarrow>
                (case validate_archon_payload validate (fst pl) fantasy_on audit of
                   (audit', Inl exc) \<Rightarrow> (audit', decision_from_spell_parser fantasy_on spell_text)
                 | (audit', Inr cleaned) \<Rightarrow>
                     (audit', Inr (apply_latency_policy
                                     (decision_from_payload spell_text cleaned) (snd pl)))))
      else (audit, decision_from_spell_parser fantasy_on spell_text))"

section \<open>Routing decisions\<close>

text \<open>
  For the evaluations below: a planner that cannot be reached, and the directive of the
  repository's latency test (\<open>summon\<close>, \<open>claude\<close>).
\<close>

definition no_planner :: "string \<Rightarrow> error + ((string \<times> py) list \<times> real)" where
  "no_planner spell_text = Inl (ValueError ''invalid_archon_output'')"

definition sample_directive :: ArchonDirective where
  "sample_directive =
     \<lparr> dir_intent = ''summon'', dir_daemon = ''claude'', dir_task = ''Summon analytics'',
       safety = \<lparr> allow_shell = False, allow_net = False \<rparr>,
       style = \<lparr> fantasy = True, voice = ''archon'' \<rparr>,
       dir_parameters = None, dir_plan = [''Channel spectral link''] \<rparr>"

lemma first_match_summon_claude:
  "map_option (\<lambda>pm. (sp_action (fst pm), sp_priority (fst pm), snd pm))
     (first_match patterns ''summon claude'')
   = Some (ACT_SUMMON, 80, [(''daemon'', ''claude'')])"
  by code_simp

lemma strip_summon_claude: "strip ''summon claude'' = ''summon claude''"
  by code_simp

lemma normalize_claude: "normalize_daemon_name ''claude'' = ''claude''"
  by code_simp

lemma parse_summon_claude:
  "parse ''summon claude'' =
     Inr \<lparr> ps_action = ACT_SUMMON, ps_daemon = Some ''claude'', ps_task = None,
           ps_parameters = None, ps_confidence = 8 / 10, ps_raw_input = ''summon claude'' \<rparr>"
proof -
  obtain p fields where pm: "first_match patterns ''summon claude'' = Some (p, fields)"
      and "sp_action p = ACT_SUMMON" "sp_priority p = 80" "fields = [(''daemon'', ''claude'')]"
    using first_match_summon_claude by (cases "first_match patterns ''summon claude''") auto
  then show ?thesis
    by (simp add: parse_def strip_summon_claude normalize_claude Let_def)
qed

text \<open>
  C6, as the code has it. With no planner, \<open>summon claude\<close> goes through the spell parser
  and gives a decision with intent \<open>summon\<close>, target \<open>claude\<close> and \<open>fallback_used\<close>; its
  confidence is the fixed 0.6 of the fallback path. The parser's own confidence, 0.8 for
  the pattern of priority 80, is kept in the raw dictionary of the decision only.
\<close>

theorem fallback_decision_for_summon_claude:
  "\<exists>d. generate_decision False request validate fantasy_on ''summon claude'' audit = (audit, Inr d)
     \<and> intent d = ''summon''
     \<and> target_daemon d = Some CLAUDE
     \<and> fallback_used d
     \<and> confidence d = Some (6 / 10)
     \<and> map_of (raw d) ''confidence'' = Some (PFloat (8 / 10))"
  by (simp add: generate_decision_def decision_from_spell_parser_def parse_summon_claude
        daemon_of_value_def spell_to_dict_def)

text \<open>
  C6, as the claim states it, fails: the confidence of the decision for \<open>summon claude\<close>
  is 0.6, at a distance of 0.2 from the claimed 0.8.
\<close>

theorem fallback_confidence_counterexample:
  "map_sum id confidence
     (snd (generate_decision False no_planner parse_obj True ''summon claude'' []))
     = Inr (Some (6 / 10))
   \<and> \<bar>(6 / 10 :: real) - 8 / 10\<bar> = 2 / 10"
  by (simp add: generate_decision_def decision_from_spell_parser_def parse_summon_claude)

lemma reroute_fields:
  "fallback_used (reroute step d) \<and> target_daemon (reroute step d) = Some LIQUIDMETAL
   \<and> plan (reroute step d) = step # plan d \<and> intent (reroute step d) = intent d"
  by (simp add: reroute_def)

text \<open>
  C5. On a decision whose \<open>fallback_used\<close> is still false, the latency policy sets it
  exactly when the elapsed time is above 0.6, or above 2.5 for a codegen decision (intent
  \<open>invoke\<close>, target \<open>claude\<close>). When it does, the target becomes \<open>liquidmetal\<close> and one
  step is put in front of the plan; otherwise the decision is unchanged. The policy is
  applied once: the decision the router returns for an accepted payload is the decision
  built from the payload (whose \<open>fallback_used\<close> is false) after one application.
\<close>

theorem latency_policy_threshold:
  assumes "\<not> fallback_used d"
  shows "(fallback_used (apply_latency_policy d t)
            \<longleftrightarrow> (if is_codegen d then t > 25 / 10 else t > 6 / 10))
       \<and> (fallback_used (apply_latency_policy d t) \<longrightarrow>
            target_daemon (apply_latency_policy d t) = Some LIQUIDMETAL
            \<and> plan (apply_latency_policy d t) =
                (if is_codegen d
                 then ''Codegen latency too high; delegating to LiquidMetal summary.''
                 else ''Latency exceeded simple budget; rerouting to LiquidMetal.'') # plan d)
       \<and> (\<not> fallback_used (apply_latency_policy d t) \<longrightarrow> apply_latency_policy d t = d)
       \<and> (snd (validate_archon_payload validate p strict audit) = Inr c \<longrightarrow>
            snd (generate_decision True (\<lambda>s. Inr (p, t)) validate strict text audit)
              = Inr (apply_latency_policy (decision_from_payload text c) t)
            \<and> \<not> fallback_used (decision_from_payload text c))"
  using assms
  by (auto simp add: apply_latency_policy_def reroute_fields SIMPLE_LATENCY_BUDGET_def
        CODEGEN_LATENCY_BUDGET_def generate_decision_def decision_from_payload_def
        split: prod.splits sum.splits)

theorem latency_policy_threshold_witness:
  "\<not> fallback_used (decision_from_payload ''summon claude'' sample_directive)
   \<and> \<not> is_codegen (decision_from_payload ''summon claude'' sample_directive)
   \<and> fallback_used (apply_latency_policy (decision_from_payload ''summon claude'' sample_directive) (8 / 10))
   \<and> target_daemon (apply_latency_policy (decision_from_payload ''summon claude'' sample_directive) (8 / 10))
       = Some LIQUIDMETAL
   \<and> plan (apply_latency_policy (decision_from_payload ''summon claude'' sample_directive) (8 / 10))
       = [''Latency exceeded simple budget; rerouting to LiquidMetal.'', ''Channel spectral link'']
   \<and> apply_latency_policy (decision_from_payload ''summon claude'' sample_directive) (6 / 10)
       = decision_from_payload ''summon claude'' sample_directive"
proof -
  have fresh: "\<not> fallback_used (decision_from_payload ''summon claude'' sample_directive)"
    by (simp add: decision_from_payload_def)
  have simple: "\<not> is_codegen (decision_from_payload ''summon claude'' sample_directive)"
    by (simp add: decision_from_payload_def is_codegen_def sample_directive_def lower_char_def)
  have pl: "plan (decision_from_payload ''summon claude'' sample_directive) = [''Channel spectral link'']"
    by (simp add: decision_from_payload_def sample_directive_def)
  show ?thesis
    using fresh simple pl
      latency_policy_threshold [OF fresh, of "8 / 10" parse_obj "[]" True "[]" sample_directive "[]"]
      latency_policy_threshold [OF fresh, of "6 / 10" parse_obj "[]" True "[]" sample_directive "[]"]
    by simp
qed

end
